(* ===== verification/Js_Prelude.thy ===== *)
theory Js_Prelude
  imports Main
begin

text \<open>
  The JavaScript values, errors and runtime conversions that \<^verbatim>\<open>src/index.js\<close> relies on:
  a datatype of the JSON-shaped values the module reads (options, response bodies,
  credentials), JavaScript truthiness (\<^verbatim>\<open>!x\<close>, \<^verbatim>\<open>x || y\<close>, \<^verbatim>\<open>x && y\<close>), property
  access that raises a \<^verbatim>\<open>TypeError\<close> on \<^verbatim>\<open>null\<close> and \<^verbatim>\<open>undefined\<close>, \<^verbatim>\<open>String(x)\<close>,
  and the error values the module emits or lets escape. The generic lemmas here are
  collected in \<open>js_simps\<close> and used by every component theory.
\<close>

named_theorems js_simps "evaluation rules of the JavaScript value model"

section \<open>Values\<close>

text \<open>
  Numbers are modelled as integers: every number the module handles is an HTTP status,
  a byte count or a file size. Objects are association lists; a later key shadows an
  earlier one, as it does in \<^verbatim>\<open>JSON.parse\<close>. \<open>JEmitter\<close> is an object with the
  \<^verbatim>\<open>EventEmitter\<close> and stream methods (\<^verbatim>\<open>on\<close>, \<^verbatim>\<open>pipe\<close>), such as a caller's
  readable stream, named by an opaque identity; the module reads none of its properties.
\<close>

datatype jsval =
    JUndef
  | JNull
  | JBool bool
  | JNum int
  | JStr string
  | JArr "jsval list"
  | JObj "(string \<times> jsval) list"
  | JEmitter nat

text \<open>\<^verbatim>\<open>!!x\<close>: \<^verbatim>\<open>undefined\<close>, \<^verbatim>\<open>null\<close>, \<^verbatim>\<open>false\<close>, \<^verbatim>\<open>0\<close> and \<^verbatim>\<open>''\<close> are falsy.\<close>

fun truthy :: "jsval \<Rightarrow> bool" where
  "truthy JUndef = False"
| "truthy JNull = False"
| "truthy (JBool b) = b"
| "truthy (JNum n) = (n \<noteq> 0)"
| "truthy (JStr s) = (s \<noteq> [])"
| "truthy (JArr _) = True"
| "truthy (JObj _) = True"
| "truthy (JEmitter _) = True"

text \<open>\<^verbatim>\<open>a || b\<close> and \<^verbatim>\<open>a && b\<close> return one of their operands.\<close>

definition js_or :: "jsval \<Rightarrow> jsval \<Rightarrow> jsval" where
  "js_or a b = (if truthy a then a else b)"

definition js_and :: "jsval \<Rightarrow> jsval \<Rightarrow> jsval" where
  "js_and a b = (if truthy a then b else a)"

fun is_string :: "jsval \<Rightarrow> bool" where
  "is_string (JStr _) = True"
| "is_string _ = False"

text \<open>\<^verbatim>\<open>x instanceof C\<close> is false for every primitive value.\<close>

fun is_object :: "jsval \<Rightarrow> bool" where
  "is_object (JArr _) = True"
| "is_object (JObj _) = True"
| "is_object (JEmitter _) = True"
| "is_object _ = False"

text \<open>
  Whether \<^verbatim>\<open>v.on\<close> and \<^verbatim>\<open>v.pipe\<close> are functions: only for an emitter. On any other
  value the call \<^verbatim>\<open>v.on(...)\<close> throws \<^verbatim>\<open>TypeError: v.on is not a function\<close>.
\<close>

fun is_emitter :: "jsval \<Rightarrow> bool" where
  "is_emitter (JEmitter _) = True"
| "is_emitter _ = False"

section \<open>Errors\<close>

text \<open>
  Failures that come from a library the module calls (the HTTP client, \<^verbatim>\<open>JSON.parse\<close>,
  the file system, the multipart uploader) are passed on unchanged; they are named by
  their origin and an opaque identifier. An \<^verbatim>\<open>Error\<close> built by the module carries its
  message and the \<^verbatim>\<open>code\<close> property the module sets on HTTP failures.
\<close>

datatype ext_error =
    RequestError nat
  | JsonSyntaxError
  | ReadStreamError nat
  | UploaderError nat
  | StatError string

datatype error =
    Error string "nat option"
  | TypeError string
  | External ext_error

definition sq :: "string \<Rightarrow> string" where
  "sq k = CHR 0x27 # k @ [CHR 0x27]"

text \<open>\<^verbatim>\<open>obj.k\<close>: a \<^verbatim>\<open>TypeError\<close> on \<^verbatim>\<open>null\<close> and \<^verbatim>\<open>undefined\<close>, \<^verbatim>\<open>undefined\<close> for a missing key.\<close>

fun get_prop :: "jsval \<Rightarrow> string \<Rightarrow> error + jsval" where
  "get_prop JUndef k = Inl (TypeError (''Cannot read properties of undefined (reading '' @ sq k @ '')''))"
| "get_prop JNull k = Inl (TypeError (''Cannot read properties of null (reading '' @ sq k @ '')''))"
| "get_prop (JObj kvs) k = Inr (case map_of (rev kvs) k of Some v \<Rightarrow> v | None \<Rightarrow> JUndef)"
| "get_prop _ k = Inr JUndef"

text \<open>The same access where the value is known not to be \<^verbatim>\<open>null\<close> or \<^verbatim>\<open>undefined\<close>.\<close>

definition prop_of :: "jsval \<Rightarrow> string \<Rightarrow> jsval" where
  "prop_of v k = (case get_prop v k of Inr x \<Rightarrow> x | Inl _ \<Rightarrow> JUndef)"

section \<open>Conversion to strings\<close>

definition digit_char :: "nat \<Rightarrow> char" where
  "digit_char d = ''0123456789'' ! d"

text \<open>\<^verbatim>\<open>Number.prototype.toString()\<close> on a non-negative integer: its decimal digits.\<close>

fun nat_str :: "nat \<Rightarrow> string" where
  "nat_str n = (if n < 10 then [digit_char n] else nat_str (n div 10) @ [digit_char (n mod 10)])"

definition int_str :: "int \<Rightarrow> string" where
  "int_str i = (if i < 0 then CHR ''-'' # nat_str (nat (- i)) else nat_str (nat i))"

text \<open>\<^verbatim>\<open>Array.prototype.join(',')\<close> on the element strings.\<close>

fun join_comma :: "string list \<Rightarrow> string" where
  "join_comma [] = []"
| "join_comma [x] = x"
| "join_comma (x # xs) = x @ CHR '','' # join_comma xs"

text \<open>\<^verbatim>\<open>String(x)\<close>, also what \<^verbatim>\<open>'...' + x\<close> and \<^verbatim>\<open>new Error(x)\<close> make of \<open>x\<close>.\<close>

fun js_to_string :: "jsval \<Rightarrow> string" where
  "js_to_string JUndef = ''undefined''"
| "js_to_string JNull = ''null''"
| "js_to_string (JBool b) = (if b then ''true'' else ''false'')"
| "js_to_string (JNum n) = int_str n"
| "js_to_string (JStr s) = s"
| "js_to_string (JArr xs) =
     join_comma (map (\<lambda>x. if x = JUndef \<or> x = JNull then [] else js_to_string x) xs)"
| "js_to_string (JObj _) = ''[object Object]''"
| "js_to_string (JEmitter _) = ''[object Object]''"

text \<open>
  \<^verbatim>\<open>util.format('%s', x)\<close>: the string itself for a string, \<^verbatim>\<open>String(x)\<close> for the other
  primitives. (Node renders objects with \<^verbatim>\<open>util.inspect\<close>; the module formats only
  validated strings and caller-supplied tokens, which the model reads as \<^verbatim>\<open>String(x)\<close>.)
\<close>

definition fmt_s :: "jsval \<Rightarrow> string" where
  "fmt_s v = js_to_string v"

text \<open>\<^verbatim>\<open>s.split(c)[0]\<close> on a string: the part before the first \<open>c\<close>.\<close>

definition split_head :: "char \<Rightarrow> string \<Rightarrow> string" where
  "split_head c s = takeWhile (\<lambda>x. x \<noteq> c) s"

section \<open>Generic lemmas\<close>

lemma truthy_not_nullish [js_simps]:
  "truthy v \<Longrightarrow> v \<noteq> JUndef \<and> v \<noteq> JNull"
  by (cases v) auto

lemma emitter_truthy [simp, js_simps]: "is_emitter v \<Longrightarrow> truthy v"
  by (cases v) auto

lemma get_prop_truthy [js_simps]:
  "truthy v \<Longrightarrow> get_prop v k = Inr (prop_of v k)"
  by (cases v) (auto simp: prop_of_def)

lemma prop_of_JObj [simp, js_simps]:
  "prop_of (JObj kvs) k = (case map_of (rev kvs) k of Some v \<Rightarrow> v | None \<Rightarrow> JUndef)"
  by (simp add: prop_of_def)

lemma js_or_simps [simp, js_simps]:
  "truthy a \<Longrightarrow> js_or a b = a"
  "\<not> truthy a \<Longrightarrow> js_or a b = b"
  by (simp_all add: js_or_def)

lemma js_or_idem [simp, js_simps]: "js_or (js_or a b) b = js_or a b"
  by (simp add: js_or_def)

lemma truthy_js_or [js_simps]: "truthy (js_or a b) = (truthy a \<or> truthy b)"
  by (simp add: js_or_def)

lemma split_head_no_sep [js_simps]: "c \<notin> set (split_head c s)"
  by (simp add: split_head_def) (metis (mono_tags) set_takeWhileD)

text \<open>The part before the first separator, and what follows it (empty, or the separator first).\<close>

lemma split_head_decomp [js_simps]:
  "\<exists>rest. s = split_head c s @ rest \<and> (rest = [] \<or> hd rest = c)"
proof -
  have "s = takeWhile (\<lambda>x. x \<noteq> c) s @ dropWhile (\<lambda>x. x \<noteq> c) s" by simp
  moreover have "dropWhile (\<lambda>x. x \<noteq> c) s = [] \<or> hd (dropWhile (\<lambda>x. x \<noteq> c) s) = c"
    by (induction s) auto
  ultimately show ?thesis unfolding split_head_def by blast
qed

lemma split_head_append [js_simps]:
  "c \<notin> set p \<Longrightarrow> (rest = [] \<or> hd rest = c) \<Longrightarrow> split_head c (p @ rest) = p"
proof -
  assume p: "c \<notin> set p" and r: "rest = [] \<or> hd rest = c"
  from p have "takeWhile (\<lambda>x. x \<noteq> c) (p @ rest) = p @ takeWhile (\<lambda>x. x \<noteq> c) rest"
    by (induction p) auto
  moreover from r have "takeWhile (\<lambda>x. x \<noteq> c) rest = []"
    by (cases rest) auto
  ultimately show ?thesis by (simp add: split_head_def)
qed

lemma nat_str_nonempty [js_simps]: "nat_str n \<noteq> []"
  by (subst nat_str.simps) simp

declare nat_str.simps [simp del]

end
