(* ===== verification/Options.thy ===== *)
theory Options
  imports Js_Prelude
begin

text \<open>
  The options validator \<^verbatim>\<open>upload.opts\<close> (\<^verbatim>\<open>src/index.js\<close>, lines 30--45): the options
  object as a record, its normalisation (the proxy from the environment, the default
  hosting base URL) and the checks in the order the code makes them, each failure an
  \<^verbatim>\<open>Error\<close> value. The theorems say what a successful validation guarantees (the account
  namespace of the map id), exactly which options it accepts, and that it accepts
  more than the specification's contract. The last section puts the caller's object in
  a store: the defaults are written into it before any check, so a rejected call
  changes the caller's object too, and an accepted call returns that very object.
\<close>

section \<open>The options object\<close>

text \<open>
  The fields the module reads. \<^verbatim>\<open>file\<close> and \<^verbatim>\<open>length\<close> are \<open>file_opt\<close> and
  \<open>length_opt\<close> here (\<open>file\<close> is a keyword, \<open>length\<close> the list function).
  A caller passing no object at all is \<open>None\<close>: \<^verbatim>\<open>opts || {}\<close>.
\<close>

record opts =
  file_opt :: jsval
  stream :: jsval
  account :: jsval
  accesstoken :: jsval
  mapid :: jsval
  proxy :: jsval
  mapbox :: jsval
  length_opt :: jsval

definition empty_opts :: opts where
  "empty_opts = \<lparr>file_opt = JUndef, stream = JUndef, account = JUndef, accesstoken = JUndef,
     mapid = JUndef, proxy = JUndef, mapbox = JUndef, length_opt = JUndef\<rparr>"

text \<open>\<^verbatim>\<open>upload.MAPBOX\<close>, line 28.\<close>

definition MAPBOX :: string where
  "MAPBOX = ''https://api.tiles.mapbox.com''"

section \<open>Validation\<close>

definition msg_source :: string where
  "msg_source = ''\"file\" or \"stream\" option required''"

definition msg_account :: string where
  "msg_account = ''\"account\" option required''"

definition msg_token :: string where
  "msg_token = ''\"accesstoken\" option required''"

definition msg_mapid :: string where
  "msg_mapid = ''\"mapid\" option required''"

definition msg_split :: string where
  "msg_split = ''opts.mapid.split is not a function''"

text \<open>\<^verbatim>\<open>util.format('Invalid mapid \"%s\" for account \"%s\"', opts.mapid, opts.account)\<close>.\<close>

definition invalid_mapid_msg :: "string \<Rightarrow> jsval \<Rightarrow> string" where
  "invalid_mapid_msg m a = ''Invalid mapid \"'' @ m @ ''\" for account \"'' @ fmt_s a @ ''\"''"

lemmas opts_msgs = msg_source_def msg_account_def msg_token_def msg_mapid_def msg_split_def
  invalid_mapid_msg_def

text \<open>
  The normalisation of lines 31--33: the object is updated in place, so every later
  stage sees the defaulted proxy and base URL. \<open>env_proxy\<close> is
  \<^verbatim>\<open>process.env.HTTP_PROXY\<close>.
\<close>

definition opts_defaults :: "jsval \<Rightarrow> opts option \<Rightarrow> opts" where
  "opts_defaults env_proxy oo =
     (let o0 = (case oo of None \<Rightarrow> empty_opts | Some x \<Rightarrow> x)
      in o0\<lparr>proxy := js_or (proxy o0) env_proxy, mapbox := js_or (mapbox o0) (JStr MAPBOX)\<rparr>)"

text \<open>
  The checks of lines 34--43, first failure first. \<^verbatim>\<open>opts.mapid.split('.')[0]\<close> raises a
  \<^verbatim>\<open>TypeError\<close> when the map id is a truthy non-string; \<^verbatim>\<open>!==\<close> is strict equality,
  so an account that is not a string never matches.
\<close>

definition check_opts :: "opts \<Rightarrow> error + opts" where
  "check_opts o1 =
     (if \<not> truthy (file_opt o1) \<and> \<not> truthy (stream o1) then Inl (Error msg_source None)
      else if \<not> truthy (account o1) then Inl (Error msg_account None)
      else if \<not> truthy (accesstoken o1) then Inl (Error msg_token None)
      else if \<not> truthy (mapid o1) then Inl (Error msg_mapid None)
      else (case mapid o1 of
              JStr m \<Rightarrow>
                if JStr (split_head CHR ''.'' m) \<noteq> account o1
                then Inl (Error (invalid_mapid_msg m (account o1)) None)
                else Inr o1
            | _ \<Rightarrow> Inl (TypeError msg_split)))"

text \<open>\<^verbatim>\<open>upload.opts(opts)\<close>: normalise, then check; the result is the same object.\<close>

definition upload_opts :: "jsval \<Rightarrow> opts option \<Rightarrow> error + opts" where
  "upload_opts env_proxy oo = check_opts (opts_defaults env_proxy oo)"

section \<open>What a validated options object satisfies\<close>

text \<open>
  The contract of a validated request, as a predicate that evaluates: a source, a token,
  a base URL, and a string account that is the map id's part before its first dot.
\<close>

definition valid_opts :: "opts \<Rightarrow> bool" where
  "valid_opts o1 \<longleftrightarrow>
     (truthy (file_opt o1) \<or> truthy (stream o1)) \<and> truthy (accesstoken o1) \<and> truthy (mapbox o1) \<and>
     (case (account o1, mapid o1) of
        (JStr a, JStr m) \<Rightarrow> a \<noteq> [] \<and> split_head CHR ''.'' m = a
      | _ \<Rightarrow> False)"

lemma check_opts_Inr: "check_opts o1 = Inr o2 \<Longrightarrow> o2 = o1"
  by (auto simp: check_opts_def split: if_splits jsval.splits)

lemma check_opts_valid:
  "check_opts o1 = Inr o2 \<Longrightarrow> truthy (mapbox o1) \<Longrightarrow> valid_opts o2"
  by (auto simp: check_opts_def valid_opts_def split: if_splits jsval.splits)

lemma valid_check_opts: "valid_opts o1 \<Longrightarrow> check_opts o1 = Inr o1"
  by (auto simp: check_opts_def valid_opts_def split_head_def split: jsval.splits)

lemma truthy_mapbox_defaults: "truthy (mapbox (opts_defaults e oo))"
  by (simp add: opts_defaults_def Let_def truthy_js_or MAPBOX_def)

lemma opts_defaults_Some_valid:
  "valid_opts o1 \<Longrightarrow> opts_defaults e (Some o1) = o1\<lparr>proxy := js_or (proxy o1) e\<rparr>"
  by (simp add: opts_defaults_def valid_opts_def)

lemma valid_opts_proxy [simp]: "valid_opts (o1\<lparr>proxy := p\<rparr>) = valid_opts o1"
  by (simp add: valid_opts_def)

text \<open>The namespace the spec asks for, read off the predicate: the map id is the account followed by nothing or by a dot.\<close>

lemma valid_opts_namespace:
  assumes "valid_opts o1"
  shows "\<exists>a rest. account o1 = JStr a \<and> a \<noteq> [] \<and> CHR ''.'' \<notin> set a \<and>
           mapid o1 = JStr (a @ rest) \<and> (rest = [] \<or> hd rest = CHR ''.'')"
proof -
  from assms obtain a m where acc: "account o1 = JStr a" and mid: "mapid o1 = JStr m"
    and ne: "a \<noteq> []" and sp: "split_head CHR ''.'' m = a"
    by (auto simp: valid_opts_def split: jsval.splits)
  obtain rest where "m = split_head CHR ''.'' m @ rest" and "rest = [] \<or> hd rest = CHR ''.''"
    using split_head_decomp by blast
  with acc mid ne sp split_head_no_sep [of "CHR ''.''" m] show ?thesis by metis
qed

text \<open>Accepted options are valid and already carry the defaulted proxy; such options are a fixpoint.\<close>

lemma upload_opts_Inr_normal:
  assumes "upload_opts e oo = Inr o1"
  shows "valid_opts o1 \<and> js_or (proxy o1) e = proxy o1"
proof -
  from assms have chk: "check_opts (opts_defaults e oo) = Inr o1" by (simp add: upload_opts_def)
  then have "o1 = opts_defaults e oo" by (rule check_opts_Inr)
  moreover from chk have "valid_opts o1" using check_opts_valid truthy_mapbox_defaults by blast
  ultimately show ?thesis by (simp add: opts_defaults_def Let_def)
qed

lemma upload_opts_fix:
  "valid_opts o1 \<Longrightarrow> js_or (proxy o1) e = proxy o1 \<Longrightarrow> upload_opts e (Some o1) = Inr o1"
  using opts_defaults_Some_valid [of o1 e] by (simp add: upload_opts_def valid_check_opts)

section \<open>Properties of the validator\<close>

text \<open>
  C4: a successful validation returns options with a string account that is the map
  id's part before its first dot, together with a source, a token and a base URL.
\<close>

theorem upload_opts_namespace:
  assumes "upload_opts e oo = Inr o1"
  shows "valid_opts o1 \<and>
         (\<exists>a rest. account o1 = JStr a \<and> a \<noteq> [] \<and> CHR ''.'' \<notin> set a \<and>
            mapid o1 = JStr (a @ rest) \<and> (rest = [] \<or> hd rest = CHR ''.''))"
proof -
  from assms have "valid_opts o1" using upload_opts_Inr_normal by blast
  then show ?thesis using valid_opts_namespace by blast
qed

definition example_opts :: opts where
  "example_opts = empty_opts\<lparr>file_opt := JStr ''data.mbtiles'', account := JStr ''acme'',
     accesstoken := JStr ''tok'', mapid := JStr ''acme.mytileset''\<rparr>"

lemma example_opts_valid:
  "upload_opts JUndef (Some example_opts) =
     Inr (example_opts\<lparr>mapbox := JStr MAPBOX\<rparr>)"
  by (simp add: upload_opts_def check_opts_def opts_defaults_def example_opts_def empty_opts_def
      split_head_def MAPBOX_def)

theorem upload_opts_namespace_witness:
  "valid_opts (example_opts\<lparr>mapbox := JStr MAPBOX\<rparr>) \<and>
   (\<exists>a rest. account (example_opts\<lparr>mapbox := JStr MAPBOX\<rparr>) = JStr a \<and> a \<noteq> [] \<and>
      CHR ''.'' \<notin> set a \<and> mapid (example_opts\<lparr>mapbox := JStr MAPBOX\<rparr>) = JStr (a @ rest) \<and>
      (rest = [] \<or> hd rest = CHR ''.''))"
  using upload_opts_namespace [OF example_opts_valid] .

text \<open>
  C12: validation accepts exactly the options that, once normalised, satisfy the
  contract predicate \<open>valid_opts\<close>, and rejects all others with an error value.
\<close>

theorem upload_opts_accepts_iff:
  "(\<exists>o1. upload_opts e oo = Inr o1) \<longleftrightarrow> valid_opts (opts_defaults e oo)"
proof
  assume "\<exists>o1. upload_opts e oo = Inr o1"
  then obtain o1 where a: "check_opts (opts_defaults e oo) = Inr o1" by (auto simp: upload_opts_def)
  then have "o1 = opts_defaults e oo" by (rule check_opts_Inr)
  with a show "valid_opts (opts_defaults e oo)" using check_opts_valid truthy_mapbox_defaults by blast
next
  assume "valid_opts (opts_defaults e oo)"
  then show "\<exists>o1. upload_opts e oo = Inr o1" by (auto simp: upload_opts_def valid_check_opts)
qed

text \<open>
  C13: the checks are looser than the request contract of the specification. Options
  that name both a file and a stream, a map id equal to the account with no separator
  and suffix, and any truthy access token (a number, an object) are all accepted.
\<close>

theorem upload_opts_accepts_outside_contract:
  assumes "a \<noteq> []" and "CHR ''.'' \<notin> set a" and "truthy f" and "truthy st" and "truthy t"
  shows "upload_opts e (Some (empty_opts\<lparr>file_opt := f, stream := st, account := JStr a,
            accesstoken := t, mapid := JStr a\<rparr>)) =
         Inr (empty_opts\<lparr>file_opt := f, stream := st, account := JStr a, accesstoken := t,
            mapid := JStr a, proxy := js_or JUndef e, mapbox := JStr MAPBOX\<rparr>)"
proof -
  have "split_head CHR ''.'' a = a"
    using split_head_append [of "CHR ''.''" a "[]"] assms(2) by simp
  with assms show ?thesis
    by (simp add: upload_opts_def check_opts_def opts_defaults_def empty_opts_def MAPBOX_def)
qed

theorem upload_opts_accepts_outside_contract_witness:
  "upload_opts JUndef (Some (empty_opts\<lparr>file_opt := JStr ''data.mbtiles'', stream := JObj [],
      account := JStr ''acme'', accesstoken := JNum 42, mapid := JStr ''acme''\<rparr>)) =
   Inr (empty_opts\<lparr>file_opt := JStr ''data.mbtiles'', stream := JObj [], account := JStr ''acme'',
      accesstoken := JNum 42, mapid := JStr ''acme'', proxy := JUndef, mapbox := JStr MAPBOX\<rparr>)"
  using upload_opts_accepts_outside_contract [of "''acme''" "JStr ''data.mbtiles''" "JObj []" "JNum 42" JUndef]
  by simp

section \<open>The caller's options object\<close>

text \<open>
  \<^verbatim>\<open>upload.opts\<close> writes the defaults into the object it is given (lines 31--33) before
  it checks anything, and returns that same object. The caller's objects live in a
  store (addresses to objects); \<open>None\<close> is a call with no object, where
  \<^verbatim>\<open>opts || {}\<close> makes a fresh one nobody else holds. The result is the store
  after the call and the outcome of the checks.
\<close>

type_synonym opts_store = "nat \<Rightarrow> opts"

definition opts_call :: "jsval \<Rightarrow> opts_store \<Rightarrow> nat option \<Rightarrow> opts_store \<times> (error + opts)" where
  "opts_call env_proxy h r =
     (let o1 = opts_defaults env_proxy (map_option h r)
      in ((case r of None \<Rightarrow> h | Some a \<Rightarrow> h(a := o1)), check_opts o1))"

lemma opts_call_Some:
  "opts_call e h (Some a) = (h(a := opts_defaults e (Some (h a))), check_opts (opts_defaults e (Some (h a))))"
  by (simp add: opts_call_def Let_def)

text \<open>
  C21: \<^verbatim>\<open>upload.opts\<close> writes into the caller's object before it checks anything.
  After every call on an object, accepted or rejected, that object holds the defaulted
  proxy (its own, else \<^verbatim>\<open>HTTP_PROXY\<close>) and base URL (its own, else
  \<^verbatim>\<open>upload.MAPBOX\<close>), with its other fields as they were; no other object of the
  store changes; and an accepted call returns that very object.
\<close>

theorem opts_call_writes_caller_object:
  assumes "opts_call e h (Some a) = (h', res)"
  shows "proxy (h' a) = js_or (proxy (h a)) e \<and> mapbox (h' a) = js_or (mapbox (h a)) (JStr MAPBOX) \<and>
         (h' a)\<lparr>proxy := proxy (h a), mapbox := mapbox (h a)\<rparr> = h a \<and>
         (\<forall>b. b \<noteq> a \<longrightarrow> h' b = h b) \<and> (\<forall>o2. res = Inr o2 \<longrightarrow> o2 = h' a)"
proof -
  from assms have h': "h' = h(a := opts_defaults e (Some (h a)))"
    and r: "res = check_opts (opts_defaults e (Some (h a)))" by (simp_all add: opts_call_Some)
  have "\<forall>o2. res = Inr o2 \<longrightarrow> o2 = h' a" by (auto simp: r h' dest: check_opts_Inr)
  then show ?thesis by (simp add: h' opts_defaults_def Let_def)
qed

text \<open>A rejected call on an object without a base URL still writes \<^verbatim>\<open>upload.MAPBOX\<close> into it.\<close>

theorem opts_call_writes_caller_object_witness:
  "fst (opts_call JUndef (\<lambda>_. empty_opts\<lparr>file_opt := JStr ''a.mbtiles''\<rparr>) (Some 0)) 0 =
     empty_opts\<lparr>file_opt := JStr ''a.mbtiles'', mapbox := JStr MAPBOX\<rparr> \<and>
   snd (opts_call JUndef (\<lambda>_. empty_opts\<lparr>file_opt := JStr ''a.mbtiles''\<rparr>) (Some 0)) =
     Inl (Error msg_account None)"
proof -
  let ?h = "\<lambda>_::nat. empty_opts\<lparr>file_opt := JStr ''a.mbtiles''\<rparr>"
  obtain h' res where c: "opts_call JUndef ?h (Some 0) = (h', res)" by fastforce
  from opts_call_writes_caller_object [OF c] have
    "proxy (h' 0) = JUndef" "mapbox (h' 0) = JStr MAPBOX"
    "(h' 0)\<lparr>proxy := JUndef, mapbox := JUndef\<rparr> = empty_opts\<lparr>file_opt := JStr ''a.mbtiles''\<rparr>"
    by (simp_all add: empty_opts_def js_or_def)
  then have "h' 0 = empty_opts\<lparr>file_opt := JStr ''a.mbtiles'', mapbox := JStr MAPBOX\<rparr>"
    by (cases "h' 0") (simp add: empty_opts_def)
  moreover from c have "res = Inl (Error msg_account None)"
    by (simp add: opts_call_Some check_opts_def opts_defaults_def empty_opts_def js_or_def MAPBOX_def)
  ultimately show ?thesis using c by simp
qed

end
