(* ===== verification/Channel.thy ===== *)
theory Channel
  imports Options
begin

text \<open>
  The state one call of \<^verbatim>\<open>upload\<close> keeps, shared by every stage: the progress stream
  \<^verbatim>\<open>prog\<close> that is returned to the caller and carries every event (its byte counter,
  declared length and listeners), the callbacks the module has registered with its
  libraries and is waiting on, and a trace of what the module did. The module runs on
  Node's event loop: each callback runs to completion, so the state changes once per
  callback. The trace records, for the initial call and for every callback, which
  trigger ran and the outputs it produced (events on \<^verbatim>\<open>prog\<close>, HTTP requests, the
  multipart upload it started, the file it opened), in order.

  Also here: \<^verbatim>\<open>upload.error\<close> (lines 47--49) with Node's rule that an \<^verbatim>\<open>'error'\<close>
  event without a listener is thrown, the progress stream's counters (the library
  \<^verbatim>\<open>progress-stream\<close>, modelled from its documented behaviour), and the HTTP error
  message rule the credential fetcher and the finalizer share.
\<close>

section \<open>The environment\<close>

text \<open>
  What the process offers synchronously: \<^verbatim>\<open>process.env.HTTP_PROXY\<close> and the sizes of
  the files \<^verbatim>\<open>fs.statSync\<close> can read (\<open>None\<close>: it throws).
\<close>

record world =
  env_proxy :: jsval
  fs_size :: "string \<Rightarrow> nat option"

section \<open>Requests, events, inputs\<close>

record get_req =
  greq_uri :: string
  greq_host :: jsval
  greq_proxy :: jsval

record post_req =
  preq_uri :: string
  preq_proxy :: jsval
  preq_json :: jsval

text \<open>The S3 client options and the multipart upload parameters of lines 107--119.\<close>

record s3_req =
  s3_access_key :: jsval
  s3_secret :: jsval
  s3_session :: jsval
  s3_region :: string
  s3_acl :: string
  s3_bucket :: jsval
  s3_key :: jsval

text \<open>A progress sample: the bytes through the stream and the length it was given.\<close>

record sample =
  transferred :: nat
  total :: jsval

datatype event = Stats sample | ErrorEv error | Finished jsval

datatype action =
    Emit event
  | Get get_req
  | Post post_req
  | S3 s3_req
  | OpenRead string

fun is_emit :: "action \<Rightarrow> bool" where
  "is_emit (Emit _) = True"
| "is_emit _ = False"

text \<open>
  The HTTP client's answers: a transport error, or a status with a body. The credential
  request's body goes through \<^verbatim>\<open>JSON.parse\<close> (\<open>None\<close>: it threw); the finalize request
  is sent with \<^verbatim>\<open>json: {...}\<close>, so the client hands over the decoded body.
\<close>

type_synonym get_response = "nat + nat \<times> jsval option"
type_synonym post_response = "nat + nat \<times> jsval"

text \<open>
  What the environment can do next: the caller attaches an \<^verbatim>\<open>'error'\<close> listener, or a
  library fires a callback or an event the module listens to. An upload-stream error
  carries \<^verbatim>\<open>String(e)\<close> of a truthy payload, \<open>None\<close> for a falsy one.
\<close>

datatype input =
    AttachErrorListener
  | CredsResp get_response
  | MpuReady "nat option"
  | StreamLength nat
  | SourceError nat
  | Chunk nat
  | Tick
  | UploadError "string option"
  | Uploaded
  | PostResp post_response

datatype trigger = Call | Input input

text \<open>
  The byte source \<^verbatim>\<open>st\<close> of \<^verbatim>\<open>putfile\<close> (lines 89 and 96), which the uploader's
  callback captures and pipes at line 132: none yet, the read stream of a file, or the
  caller's \<^verbatim>\<open>opts.stream\<close> value as it was when \<^verbatim>\<open>putfile\<close> ran.
\<close>

datatype source = NoSource | FileSource string | StreamSource jsval

text \<open>\<^verbatim>\<open>st.pipe\<close> is a function: a file's read stream, or a caller stream that is an emitter.\<close>

fun pipeable :: "source \<Rightarrow> bool" where
  "pipeable NoSource = False"
| "pipeable (FileSource _) = True"
| "pipeable (StreamSource v) = is_emitter v"

section \<open>The state of one upload\<close>

record ustate =
  uopts :: opts
  ucreds :: jsval
  usource :: source
  err_listener :: bool
  crashed :: "error option"
  creds_pending :: bool
  mpu_pending :: bool
  post_pending :: bool
  read_listener :: bool
  length_listener :: bool
  progress_listener :: bool
  upload_listeners :: bool
  piping :: bool
  prog_transferred :: nat
  prog_length :: jsval
  outbox :: "action list"
  trace :: "(trigger \<times> action list) list"

text \<open>Right after \<^verbatim>\<open>progress({ time: 100 })\<close> (line 17): nothing registered, nothing sent.\<close>

definition init_state :: "opts \<Rightarrow> ustate" where
  "init_state o1 = \<lparr>uopts = o1, ucreds = JUndef, usource = NoSource, err_listener = False, crashed = None,
     creds_pending = False, mpu_pending = False, post_pending = False, read_listener = False,
     length_listener = False, progress_listener = False, upload_listeners = False,
     piping = False, prog_transferred = 0, prog_length = JUndef, outbox = [], trace = []\<rparr>"

section \<open>Emitting\<close>

definition emit_event :: "event \<Rightarrow> ustate \<Rightarrow> ustate" where
  "emit_event ev s = s\<lparr>outbox := outbox s @ [Emit ev]\<rparr>"

definition send :: "action \<Rightarrow> ustate \<Rightarrow> ustate" where
  "send a s = s\<lparr>outbox := outbox s @ [a]\<rparr>"

text \<open>An exception nobody catches: on the event loop it ends the process.\<close>

definition throw_err :: "error \<Rightarrow> ustate \<Rightarrow> ustate" where
  "throw_err e s = s\<lparr>crashed := Some e\<rparr>"

text \<open>
  \<^verbatim>\<open>upload.error(err, prog)\<close> is \<^verbatim>\<open>prog.emit('error', err)\<close>; Node's event emitter
  throws \<open>err\<close> when no \<^verbatim>\<open>'error'\<close> listener is attached.
\<close>

definition emit_error :: "error \<Rightarrow> ustate \<Rightarrow> ustate" where
  "emit_error e s = (if err_listener s then emit_event (ErrorEv e) s else throw_err e s)"

text \<open>A library callback either reports an error, throws, or hands on a value.\<close>

datatype 'a cb_result = CbError error | CbThrow error | CbOk 'a

text \<open>\<^verbatim>\<open>new Error(body && body.message || dflt)\<close>, with \<^verbatim>\<open>err.code\<close> the HTTP status (lines 66--67, 160--161).\<close>

definition http_error :: "jsval \<Rightarrow> string \<Rightarrow> nat \<Rightarrow> error" where
  "http_error body dflt status =
     Error (js_to_string (js_or (js_and body (prop_of body ''message'')) (JStr dflt))) (Some status)"

section \<open>The progress stream\<close>

text \<open>
  \<^verbatim>\<open>prog.setLength(n)\<close>, a chunk passing through \<^verbatim>\<open>prog\<close>, and the timer of
  \<^verbatim>\<open>progress({time: 100})\<close> firing \<^verbatim>\<open>'progress'\<close> with the current counters, which the
  listener of lines 103--105 re-emits as \<^verbatim>\<open>'stats'\<close>.
\<close>

definition prog_set_length :: "jsval \<Rightarrow> ustate \<Rightarrow> ustate" where
  "prog_set_length n s = s\<lparr>prog_length := n\<rparr>"

definition prog_chunk :: "nat \<Rightarrow> ustate \<Rightarrow> ustate" where
  "prog_chunk n s = s\<lparr>prog_transferred := prog_transferred s + n\<rparr>"

definition on_progress :: "sample \<Rightarrow> ustate \<Rightarrow> ustate" where
  "on_progress p s = emit_event (Stats p) s"

definition prog_tick :: "ustate \<Rightarrow> ustate" where
  "prog_tick s =
     (if progress_listener s
      then on_progress \<lparr>transferred = prog_transferred s, total = prog_length s\<rparr> s
      else s)"

section \<open>Shared lemmas\<close>

named_theorems out_simps "what an emitting operation adds to the outbox"

lemma emit_event_fields [simp]:
  "outbox (emit_event ev s) = outbox s @ [Emit ev]"
  "trace (emit_event ev s) = trace s"
  "uopts (emit_event ev s) = uopts s"
  "crashed (emit_event ev s) = crashed s"
  "prog_transferred (emit_event ev s) = prog_transferred s"
  by (simp_all add: emit_event_def)

lemma emit_error_sel [simp]:
  "uopts (emit_error e s) = uopts s" "ucreds (emit_error e s) = ucreds s" "usource (emit_error e s) = usource s"
  "err_listener (emit_error e s) = err_listener s"
  "creds_pending (emit_error e s) = creds_pending s" "mpu_pending (emit_error e s) = mpu_pending s"
  "post_pending (emit_error e s) = post_pending s" "read_listener (emit_error e s) = read_listener s"
  "length_listener (emit_error e s) = length_listener s"
  "progress_listener (emit_error e s) = progress_listener s"
  "upload_listeners (emit_error e s) = upload_listeners s" "piping (emit_error e s) = piping s"
  "prog_transferred (emit_error e s) = prog_transferred s" "prog_length (emit_error e s) = prog_length s"
  "trace (emit_error e s) = trace s"
  by (simp_all add: emit_error_def emit_event_def throw_err_def)

lemma throw_err_sel [simp]:
  "outbox (throw_err e s) = outbox s" "crashed (throw_err e s) = Some e"
  "uopts (throw_err e s) = uopts s" "ucreds (throw_err e s) = ucreds s" "usource (throw_err e s) = usource s"
  "err_listener (throw_err e s) = err_listener s"
  "creds_pending (throw_err e s) = creds_pending s" "mpu_pending (throw_err e s) = mpu_pending s"
  "post_pending (throw_err e s) = post_pending s" "read_listener (throw_err e s) = read_listener s"
  "length_listener (throw_err e s) = length_listener s"
  "progress_listener (throw_err e s) = progress_listener s"
  "upload_listeners (throw_err e s) = upload_listeners s" "piping (throw_err e s) = piping s"
  "prog_transferred (throw_err e s) = prog_transferred s" "prog_length (throw_err e s) = prog_length s"
  "trace (throw_err e s) = trace s"
  by (simp_all add: throw_err_def)

lemma send_sel [simp]:
  "outbox (send a s) = outbox s @ [a]" "uopts (send a s) = uopts s" "ucreds (send a s) = ucreds s" "usource (send a s) = usource s"
  "err_listener (send a s) = err_listener s" "crashed (send a s) = crashed s"
  "creds_pending (send a s) = creds_pending s" "mpu_pending (send a s) = mpu_pending s"
  "post_pending (send a s) = post_pending s" "read_listener (send a s) = read_listener s"
  "length_listener (send a s) = length_listener s"
  "progress_listener (send a s) = progress_listener s"
  "upload_listeners (send a s) = upload_listeners s" "piping (send a s) = piping s"
  "prog_transferred (send a s) = prog_transferred s" "prog_length (send a s) = prog_length s"
  "trace (send a s) = trace s"
  by (simp_all add: send_def)

lemma emit_event_sel [simp]:
  "ucreds (emit_event ev s) = ucreds s" "usource (emit_event ev s) = usource s" "err_listener (emit_event ev s) = err_listener s"
  "creds_pending (emit_event ev s) = creds_pending s" "mpu_pending (emit_event ev s) = mpu_pending s"
  "post_pending (emit_event ev s) = post_pending s" "read_listener (emit_event ev s) = read_listener s"
  "length_listener (emit_event ev s) = length_listener s"
  "progress_listener (emit_event ev s) = progress_listener s"
  "upload_listeners (emit_event ev s) = upload_listeners s" "piping (emit_event ev s) = piping s"
  "prog_length (emit_event ev s) = prog_length s"
  by (simp_all add: emit_event_def)

text \<open>What an emitted error adds to the outbox: the error event, or nothing when it is thrown.\<close>

lemma outbox_emit_error [out_simps]:
  "set (outbox (emit_error e s)) \<subseteq> insert (Emit (ErrorEv e)) (set (outbox s))"
  by (auto simp: emit_error_def emit_event_def throw_err_def)

lemma outbox_emit_errorD:
  "a \<in> set (outbox (emit_error e s)) \<Longrightarrow> a \<in> set (outbox s) \<or> a = Emit (ErrorEv e)"
  using outbox_emit_error by blast

lemma emit_error_cases [out_simps]:
  "err_listener s \<Longrightarrow> emit_error e s = s\<lparr>outbox := outbox s @ [Emit (ErrorEv e)]\<rparr>"
  "\<not> err_listener s \<Longrightarrow> emit_error e s = s\<lparr>crashed := Some e\<rparr>"
  by (simp_all add: emit_error_def emit_event_def throw_err_def)

lemma http_error_code: "\<exists>m. http_error body dflt status = Error m (Some status)"
  by (simp add: http_error_def)

lemma http_error_falsy_body:
  "\<not> truthy body \<Longrightarrow> http_error body dflt status = Error dflt (Some status)"
  by (simp add: http_error_def js_and_def)

lemma http_error_message:
  "get_prop body ''message'' = Inr (JStr m) \<Longrightarrow> m \<noteq> [] \<Longrightarrow>
   http_error body dflt status = Error m (Some status)"
  by (cases body) (auto simp: http_error_def js_and_def prop_of_def)

end
