(* ===== verification/Creds.thy ===== *)
theory Creds
  imports Channel
begin

text \<open>
  The credential fetcher \<^verbatim>\<open>upload.getcreds\<close> (\<^verbatim>\<open>src/index.js\<close>, lines 51--76): it
  re-validates the options, sends one GET to the credentials endpoint and, in the
  request's callback, turns the response into an error on \<^verbatim>\<open>prog\<close>, an uncaught
  exception, or the credentials object handed to its callback. The response handler is
  the pure function \<open>creds_response\<close>; \<open>getcreds\<close> is the part that runs in the
  initial call. The theorems give the handler's result on every branch.
\<close>

section \<open>The request\<close>

text \<open>
  \<^verbatim>\<open>url.parse(x).host\<close> of Node's legacy URL parser, for the base URLs the module is
  given: the authority after \<^verbatim>\<open>scheme://\<close> up to the first \<^verbatim>\<open>/\<close>, \<^verbatim>\<open>?\<close> or
  \<^verbatim>\<open>#\<close>; \<^verbatim>\<open>null\<close> without \<^verbatim>\<open>//\<close>; a \<^verbatim>\<open>TypeError\<close> for a non-string argument.
  (Lower-casing of the host is left out.)
\<close>

fun after_scheme :: "string \<Rightarrow> string option" where
  "after_scheme [] = None"
| "after_scheme (c # cs) =
     (if c = CHR '':'' then (case cs of a # b # r \<Rightarrow>
         if a = CHR ''/'' \<and> b = CHR ''/'' then Some r else None | _ \<Rightarrow> None)
      else after_scheme cs)"

definition url_host :: "jsval \<Rightarrow> error + jsval" where
  "url_host v =
     (case v of
        JStr s \<Rightarrow> Inr (case after_scheme s of
                         Some r \<Rightarrow> JStr (takeWhile (\<lambda>c. c \<notin> set ''/?#'') r)
                       | None \<Rightarrow> JNull)
      | _ \<Rightarrow> Inl (TypeError ''The \"url\" argument must be of type string''))"

text \<open>\<^verbatim>\<open>util.format('%s/uploads/v1/%s/credentials?access_token=%s', ...)\<close>, line 55.\<close>

definition creds_uri :: "opts \<Rightarrow> string" where
  "creds_uri o1 =
     fmt_s (mapbox o1) @ ''/uploads/v1/'' @ fmt_s (account o1) @ ''/credentials?access_token=''
     @ fmt_s (accesstoken o1)"

text \<open>The options object of \<^verbatim>\<open>request.get\<close>, lines 54--57; \<^verbatim>\<open>url.parse\<close> may throw.\<close>

definition creds_request :: "opts \<Rightarrow> error + get_req" where
  "creds_request o1 =
     (case url_host (mapbox o1) of
        Inl e \<Rightarrow> Inl e
      | Inr h \<Rightarrow> Inr \<lparr>greq_uri = creds_uri o1, greq_host = h, greq_proxy = proxy o1\<rparr>)"

text \<open>
  \<^verbatim>\<open>upload.getcreds(opts, prog, callback)\<close> up to the request: validation failure is
  an error on \<^verbatim>\<open>prog\<close>; a throwing \<^verbatim>\<open>url.parse\<close> escapes; otherwise the GET is sent
  and its callback is pending.
\<close>

definition getcreds :: "world \<Rightarrow> opts \<Rightarrow> ustate \<Rightarrow> ustate" where
  "getcreds w o1 s =
     (case upload_opts (env_proxy w) (Some o1) of
        Inl e \<Rightarrow> emit_error e s
      | Inr o2 \<Rightarrow>
          (case creds_request o2 of
             Inl e \<Rightarrow> throw_err e s
           | Inr r \<Rightarrow> (send (Get r) s)\<lparr>uopts := o2, creds_pending := True\<rparr>))"

section \<open>The response\<close>

definition msg_invalid_creds :: string where
  "msg_invalid_creds = ''Invalid creds''"

definition msg_unavailable :: "nat \<Rightarrow> string" where
  "msg_unavailable st = ''Mapbox is not available: '' @ nat_str st"

text \<open>
  The callback of lines 58--75, in its order: transport error, \<^verbatim>\<open>JSON.parse\<close>, status,
  then \<^verbatim>\<open>!body.key || !body.bucket\<close>. Reading \<^verbatim>\<open>body.key\<close> of a \<^verbatim>\<open>null\<close> body throws
  inside the callback; \<^verbatim>\<open>body.bucket\<close> is read only when \<^verbatim>\<open>body.key\<close> was read.
\<close>

definition creds_response :: "get_response \<Rightarrow> jsval cb_result" where
  "creds_response r =
     (case r of
        Inl n \<Rightarrow> CbError (External (RequestError n))
      | Inr (st, None) \<Rightarrow> CbError (External JsonSyntaxError)
      | Inr (st, Some body) \<Rightarrow>
          if st \<noteq> 200 then CbError (http_error body (msg_unavailable st) st)
          else (case get_prop body ''key'' of
                  Inl e \<Rightarrow> CbThrow e
                | Inr k \<Rightarrow>
                    if \<not> truthy k \<or> \<not> truthy (prop_of body ''bucket'')
                    then CbError (Error msg_invalid_creds None)
                    else CbOk body))"

section \<open>Behaviour of the handler\<close>

lemma creds_response_CbOk:
  "creds_response r = CbOk c \<Longrightarrow>
     r = Inr (200, Some c) \<and> truthy (prop_of c ''key'') \<and> truthy (prop_of c ''bucket'')"
  by (auto simp: creds_response_def prop_of_def split: sum.splits option.splits if_splits)

lemma creds_response_CbThrow:
  "creds_response r = CbThrow e \<Longrightarrow> r = Inr (200, Some JNull) \<or> r = Inr (200, Some JUndef)"
proof -
  assume a: "creds_response r = CbThrow e"
  then obtain body where r: "r = Inr (200, Some body)" and g: "\<exists>e'. get_prop body ''key'' = Inl e'"
    by (auto simp: creds_response_def split: sum.splits option.splits if_splits)
  from g have "body = JNull \<or> body = JUndef" by (cases body) auto
  with r show ?thesis by auto
qed

lemma getcreds_valid:
  "valid_opts o1 \<Longrightarrow> creds_request (o1\<lparr>proxy := js_or (proxy o1) (env_proxy w)\<rparr>) = Inr r \<Longrightarrow>
   getcreds w o1 s =
     (send (Get r) s)\<lparr>uopts := o1\<lparr>proxy := js_or (proxy o1) (env_proxy w)\<rparr>, creds_pending := True\<rparr>"
  by (simp add: getcreds_def upload_opts_def opts_defaults_Some_valid valid_check_opts)

section \<open>Properties of the credential fetcher\<close>

text \<open>
  C7: a 200 response whose body lacks a truthy \<^verbatim>\<open>key\<close> or \<^verbatim>\<open>bucket\<close> is an
  \<^verbatim>\<open>Invalid creds\<close> error, never credentials handed on.
\<close>

theorem creds_missing_key_invalid:
  assumes "body \<noteq> JNull" and "body \<noteq> JUndef"
    and "\<not> truthy (prop_of body ''key'') \<or> \<not> truthy (prop_of body ''bucket'')"
  shows "creds_response (Inr (200, Some body)) = CbError (Error msg_invalid_creds None)"
proof -
  from assms(1,2) have "get_prop body ''key'' = Inr (prop_of body ''key'')"
    by (cases body) (simp_all add: prop_of_def)
  with assms(3) show ?thesis by (simp add: creds_response_def)
qed

theorem creds_missing_key_invalid_witness:
  "creds_response (Inr (200, Some (JObj [(''bucket'', JStr ''b1'')]))) =
     CbError (Error ''Invalid creds'' None)"
  using creds_missing_key_invalid [of "JObj [(''bucket'', JStr ''b1'')]"]
  by (simp add: msg_invalid_creds_def)

text \<open>
  C8: any other status than 200 is an error whose \<^verbatim>\<open>code\<close> is the status; its message
  is the body's non-empty string \<^verbatim>\<open>message\<close> when there is one, and
  \<^verbatim>\<open>Mapbox is not available: <status>\<close> for an empty (falsy) body.
\<close>

theorem creds_non200_error:
  assumes "st \<noteq> 200"
  shows "\<exists>m. creds_response (Inr (st, Some body)) = CbError (Error m (Some st)) \<and>
           (\<forall>m'. get_prop body ''message'' = Inr (JStr m') \<and> m' \<noteq> [] \<longrightarrow> m = m') \<and>
           (\<not> truthy body \<longrightarrow> m = ''Mapbox is not available: '' @ nat_str st)"
proof -
  obtain m where m: "http_error body (msg_unavailable st) st = Error m (Some st)"
    using http_error_code by blast
  have "m = m'" if "get_prop body ''message'' = Inr (JStr m')" "m' \<noteq> []" for m'
    using http_error_message [OF that, of "msg_unavailable st" st] m by simp
  moreover have "\<not> truthy body \<longrightarrow> m = ''Mapbox is not available: '' @ nat_str st"
    using http_error_falsy_body [of body "msg_unavailable st" st] m by (simp add: msg_unavailable_def)
  ultimately show ?thesis using assms m by (auto simp: creds_response_def)
qed

theorem creds_non200_error_witness:
  "creds_response (Inr (403, Some (JObj [(''message'', JStr ''forbidden'')]))) =
     CbError (Error ''forbidden'' (Some 403))"
proof -
  obtain m where m: "creds_response (Inr (403, Some (JObj [(''message'', JStr ''forbidden'')]))) =
      CbError (Error m (Some 403))"
    and f: "\<forall>m'. get_prop (JObj [(''message'', JStr ''forbidden'')]) ''message'' = Inr (JStr m') \<and> m' \<noteq> []
              \<longrightarrow> m = m'"
    using creds_non200_error [of 403 "JObj [(''message'', JStr ''forbidden'')]"] by auto
  from f have "m = ''forbidden''" by simp
  with m show ?thesis by simp
qed

end
