(* ===== verification/Finalize.thy ===== *)
theory Finalize
  imports Channel
begin

text \<open>
  The job finalizer \<^verbatim>\<open>upload.createUpload\<close> (\<^verbatim>\<open>src/index.js\<close>, lines 136--168): it
  re-validates the options and the credentials, derives the public object URL from the
  bucket and key, sends one POST registering the upload, and in the request's callback
  emits \<^verbatim>\<open>'finished'\<close> with the job descriptor on a 201 and an error otherwise. The two
  guards it shares with \<^verbatim>\<open>upload.putfile\<close> (re-validation, the \<^verbatim>\<open>key\<close>/\<^verbatim>\<open>bucket\<close>
  checks) are defined here once. The theorems: the object URL determines bucket and key
  (a decoder recovers them), the response handler's result on every branch, and what a
  caller's callback receives.
\<close>

section \<open>Guards shared with the upload engine\<close>

definition msg_key :: string where
  "msg_key = ''\"key\" required in creds''"

definition msg_bucket :: string where
  "msg_bucket = ''\"bucket\" required in creds''"

text \<open>\<^verbatim>\<open>try { opts = upload.opts(opts) } catch(err) { return upload.error(err, prog) }\<close>.\<close>

definition revalidate :: "world \<Rightarrow> opts \<Rightarrow> ustate \<Rightarrow> (opts \<Rightarrow> ustate) \<Rightarrow> ustate" where
  "revalidate w o1 s k =
     (case upload_opts (env_proxy w) (Some o1) of Inl e \<Rightarrow> emit_error e s | Inr o2 \<Rightarrow> k o2)"

text \<open>Lines 82--85 and 140--143; \<^verbatim>\<open>creds.key\<close> throws when \<^verbatim>\<open>creds\<close> is \<^verbatim>\<open>null\<close>.\<close>

definition creds_guard :: "jsval \<Rightarrow> ustate \<Rightarrow> (ustate \<Rightarrow> ustate) \<Rightarrow> ustate" where
  "creds_guard c s k =
     (case get_prop c ''key'' of
        Inl e \<Rightarrow> throw_err e s
      | Inr key \<Rightarrow>
          if \<not> truthy key then emit_error (Error msg_key None) s
          else if \<not> truthy (prop_of c ''bucket'') then emit_error (Error msg_bucket None) s
          else k s)"

lemma revalidate_valid [simp]:
  "valid_opts o1 \<Longrightarrow> revalidate w o1 s k = k (o1\<lparr>proxy := js_or (proxy o1) (env_proxy w)\<rparr>)"
  by (simp add: revalidate_def upload_opts_def opts_defaults_Some_valid valid_check_opts)

lemma creds_guard_ok [simp]:
  "truthy (prop_of c ''key'') \<Longrightarrow> truthy (prop_of c ''bucket'') \<Longrightarrow> creds_guard c s k = k s"
  by (cases c) (auto simp: creds_guard_def prop_of_def)

section \<open>The registration request\<close>

definition s3_host_suffix :: string where
  "s3_host_suffix = ''.s3.amazonaws.com''"

text \<open>\<^verbatim>\<open>'http://' + creds.bucket + '.s3.amazonaws.com/' + creds.key\<close>, line 146.\<close>

definition object_url :: "string \<Rightarrow> string \<Rightarrow> string" where
  "object_url b k = ''http://'' @ b @ s3_host_suffix @ ''/'' @ k"

definition s3_url :: "jsval \<Rightarrow> string" where
  "s3_url c = object_url (js_to_string (prop_of c ''bucket'')) (js_to_string (prop_of c ''key''))"

text \<open>\<^verbatim>\<open>util.format('%s/uploads/v1/%s?access_token=%s', ...)\<close>, line 145.\<close>

definition upload_uri :: "opts \<Rightarrow> string" where
  "upload_uri o1 =
     fmt_s (mapbox o1) @ ''/uploads/v1/'' @ fmt_s (account o1) @ ''?access_token='' @ fmt_s (accesstoken o1)"

text \<open>The options of \<^verbatim>\<open>request.post\<close>, lines 148--155.\<close>

definition post_request :: "opts \<Rightarrow> jsval \<Rightarrow> post_req" where
  "post_request o1 c =
     \<lparr>preq_uri = upload_uri o1, preq_proxy = proxy o1,
      preq_json = JObj [(''id'', mapid o1), (''url'', JStr (s3_url c)), (''data'', mapid o1)]\<rparr>"

text \<open>\<^verbatim>\<open>upload.createUpload(opts, creds, prog, callback)\<close> up to the request.\<close>

definition create_upload :: "world \<Rightarrow> opts \<Rightarrow> jsval \<Rightarrow> ustate \<Rightarrow> ustate" where
  "create_upload w o1 c s =
     revalidate w o1 s (\<lambda>o2. creds_guard c s
       (\<lambda>s1. (send (Post (post_request o2 c)) s1)\<lparr>post_pending := True\<rparr>))"

section \<open>The response\<close>

definition msg_put_failed :: "nat \<Rightarrow> string" where
  "msg_put_failed st = ''Upload PUT failed: '' @ nat_str st"

text \<open>The callback of lines 156--167 (the caller's \<^verbatim>\<open>callback\<close> is absent in the pipeline).\<close>

definition finalize_response :: "post_response \<Rightarrow> jsval cb_result" where
  "finalize_response r =
     (case r of
        Inl n \<Rightarrow> CbError (External (RequestError n))
      | Inr (st, body) \<Rightarrow>
          if st \<noteq> 201 then CbError (http_error body (msg_put_failed st) st) else CbOk body)"

text \<open>
  The callback with the caller's \<^verbatim>\<open>callback\<close> present (\<open>True\<close>) or absent: the state,
  and the body \<^verbatim>\<open>callback && callback(null, body)\<close> hands to it (line 165). Errors
  go only to \<^verbatim>\<open>upload.error\<close> and return before the callback.
\<close>

definition on_post_cb :: "bool \<Rightarrow> post_response \<Rightarrow> ustate \<Rightarrow> ustate \<times> jsval option" where
  "on_post_cb has_cb r s =
     (case finalize_response r of
        CbError e \<Rightarrow> (emit_error e s, None)
      | CbThrow e \<Rightarrow> (throw_err e s, None)
      | CbOk b \<Rightarrow> (emit_event (Finished b) s, if has_cb then Some b else None))"

text \<open>In the pipeline \<^verbatim>\<open>putfile\<close> is called without a callback and passes none on.\<close>

definition on_post :: "post_response \<Rightarrow> ustate \<Rightarrow> ustate" where
  "on_post r s = fst (on_post_cb False r s)"

lemma on_post_eq:
  "on_post r s =
     (case finalize_response r of
        CbError e \<Rightarrow> emit_error e s
      | CbThrow e \<Rightarrow> throw_err e s
      | CbOk b \<Rightarrow> emit_event (Finished b) s)"
  by (simp add: on_post_def on_post_cb_def split: cb_result.splits)

section \<open>Decoding the object URL\<close>

text \<open>
  How the storage service reads the URL back: after \<^verbatim>\<open>http://\<close>, the host up to the
  first \<^verbatim>\<open>/\<close> names the bucket (minus the service suffix), the rest is the key.
\<close>

definition parse_object_url :: "string \<Rightarrow> (string \<times> string) option" where
  "parse_object_url u =
     (if take 7 u \<noteq> ''http://'' then None
      else (let r = drop 7 u; host = takeWhile (\<lambda>c. c \<noteq> CHR ''/'') r;
                path = dropWhile (\<lambda>c. c \<noteq> CHR ''/'') r; n = length s3_host_suffix
            in if path = [] \<or> length host < n \<or> drop (length host - n) host \<noteq> s3_host_suffix
               then None
               else Some (take (length host - n) host, tl path)))"

lemma takeWhile_dropWhile_sep:
  "c \<notin> set xs \<Longrightarrow> takeWhile (\<lambda>x. x \<noteq> c) (xs @ c # ys) = xs \<and>
                    dropWhile (\<lambda>x. x \<noteq> c) (xs @ c # ys) = c # ys"
  by (induction xs) auto

section \<open>Properties of the finalizer\<close>

text \<open>
  C11: the object URL registered with the job determines the stored object: for a
  bucket name without \<^verbatim>\<open>/\<close> (S3 bucket names never contain one), decoding the URL gives
  back the bucket and the key, whatever the key holds.
\<close>

theorem object_url_roundtrip:
  assumes b: "CHR ''/'' \<notin> set b"
  shows "parse_object_url (object_url b k) = Some (b, k)"
proof -
  have sfx: "CHR ''/'' \<notin> set s3_host_suffix" by (simp add: s3_host_suffix_def)
  let ?r = "(b @ s3_host_suffix) @ CHR ''/'' # k"
  have u: "object_url b k = ''http://'' @ ?r" by (simp add: object_url_def)
  from b sfx have "CHR ''/'' \<notin> set (b @ s3_host_suffix)" by simp
  then have tw: "takeWhile (\<lambda>c. c \<noteq> CHR ''/'') ?r = b @ s3_host_suffix"
    and dw: "dropWhile (\<lambda>c. c \<noteq> CHR ''/'') ?r = CHR ''/'' # k"
    using takeWhile_dropWhile_sep [of "CHR ''/''" "b @ s3_host_suffix" k] by simp_all
  show ?thesis unfolding parse_object_url_def u using tw dw by (simp add: Let_def)
qed

theorem object_url_roundtrip_witness:
  "parse_object_url ''http://b1.s3.amazonaws.com/uploads/k1/data.mbtiles'' = Some (''b1'', ''uploads/k1/data.mbtiles'')"
proof -
  have "parse_object_url (object_url ''b1'' ''uploads/k1/data.mbtiles'') = Some (''b1'', ''uploads/k1/data.mbtiles'')"
    by (rule object_url_roundtrip) simp
  then show ?thesis by (simp add: object_url_def s3_host_suffix_def)
qed

end
