(* ===== verification/Putfile.thy ===== *)
theory Putfile
  imports Finalize
begin

text \<open>
  The streaming upload engine \<^verbatim>\<open>upload.putfile\<close> (\<^verbatim>\<open>src/index.js\<close>, lines 78--134):
  after the shared guards it resolves the byte source (a caller's stream, or a file it
  opens and measures with \<^verbatim>\<open>fs.statSync\<close>), seeds the progress stream's length,
  registers the \<^verbatim>\<open>'progress'\<close> listener, and starts a multipart upload whose
  constructor callback wires the upload stream's \<^verbatim>\<open>'error'\<close> and \<^verbatim>\<open>'uploaded'\<close>
  listeners and the pipe \<^verbatim>\<open>source | prog | uploadStream\<close>. Each callback it registers is
  a function on the state: \<open>on_mpu_ready\<close>, \<open>on_read_error\<close>,
  \<open>on_upload_error\<close> and \<open>on_uploaded\<close>, the last one calling the finalizer.
\<close>

section \<open>Source resolution\<close>

definition msg_stream_obj :: string where
  "msg_stream_obj = ''\"stream\" must be an stream object''"

definition msg_file_str :: string where
  "msg_file_str = ''\"file\" must be an string''"

text \<open>
  The S3 client options and upload parameters, lines 107--119: credentials from the
  response, region \<^verbatim>\<open>us-east-1\<close>, ACL \<^verbatim>\<open>public-read\<close>, bucket and key from it.
\<close>

definition s3_request :: "jsval \<Rightarrow> s3_req" where
  "s3_request c =
     \<lparr>s3_access_key = prop_of c ''accessKeyId'', s3_secret = prop_of c ''secretAccessKey'',
      s3_session = prop_of c ''sessionToken'', s3_region = ''us-east-1'', s3_acl = ''public-read'',
      s3_bucket = prop_of c ''bucket'', s3_key = prop_of c ''key''\<rparr>"

text \<open>
  Lines 103--133 up to the uploader's callback: the \<^verbatim>\<open>'progress'\<close> listener, the
  uploader started, its callback pending (with the credentials it closes over).
\<close>

definition start_upload :: "jsval \<Rightarrow> ustate \<Rightarrow> ustate" where
  "start_upload c s =
     (send (S3 (s3_request c)) s)\<lparr>progress_listener := True, ucreds := c, mpu_pending := True\<rparr>"

definition msg_on_not_fn :: string where
  "msg_on_not_fn = ''st.on is not a function''"

definition msg_pipe_not_fn :: string where
  "msg_pipe_not_fn = ''st.pipe is not a function''"

text \<open>
  Lines 87--101. \<^verbatim>\<open>!opts.stream instanceof stream\<close> parses as
  \<^verbatim>\<open>(!opts.stream) instanceof stream\<close>: a boolean, never an instance. The source
  \<^verbatim>\<open>st\<close> is recorded for the pipe of line 132. A stream without a declared length gets
  a \<^verbatim>\<open>'length'\<close> listener through \<^verbatim>\<open>st.on\<close>, which throws a \<^verbatim>\<open>TypeError\<close>
  when the value is not an emitter. A file is opened (its read stream gets an
  \<^verbatim>\<open>'error'\<close> listener) and measured, and \<^verbatim>\<open>fs.statSync\<close> throws for a file it
  cannot stat.
\<close>

definition putfile_source :: "world \<Rightarrow> opts \<Rightarrow> jsval \<Rightarrow> ustate \<Rightarrow> ustate" where
  "putfile_source w o1 c s =
     (if truthy (stream o1) then
        (if is_object (JBool (\<not> truthy (stream o1))) then emit_error (Error msg_stream_obj None) s
         else (let s1 = s\<lparr>usource := StreamSource (stream o1)\<rparr>
               in if truthy (length_opt o1) then start_upload c (prog_set_length (length_opt o1) s1)
                  else if is_emitter (stream o1) then start_upload c (s1\<lparr>length_listener := True\<rparr>)
                  else throw_err (TypeError msg_on_not_fn) s1))
      else if \<not> truthy (file_opt o1) \<or> \<not> is_string (file_opt o1) then
        emit_error (Error msg_file_str None) s
      else (case file_opt o1 of
              JStr path \<Rightarrow>
                (let s1 = (send (OpenRead path) s)\<lparr>read_listener := True, usource := FileSource path\<rparr>
                 in case fs_size w path of
                      None \<Rightarrow> throw_err (External (StatError path)) s1
                    | Some n \<Rightarrow> start_upload c (prog_set_length (JNum (int n)) s1))
            | _ \<Rightarrow> s))"

text \<open>\<^verbatim>\<open>upload.putfile(opts, creds, prog)\<close>, lines 78--134.\<close>

definition putfile :: "world \<Rightarrow> opts \<Rightarrow> jsval \<Rightarrow> ustate \<Rightarrow> ustate" where
  "putfile w o1 c s = revalidate w o1 s (\<lambda>o2. creds_guard c s (putfile_source w o2 c))"

section \<open>The callbacks it registers\<close>

text \<open>The read stream's \<^verbatim>\<open>'error'\<close> listener, lines 97--99.\<close>

definition on_read_error :: "nat \<Rightarrow> ustate \<Rightarrow> ustate" where
  "on_read_error n s = emit_error (External (ReadStreamError n)) s"

text \<open>
  The uploader's callback, lines 120--133: an error, or the upload stream's listeners
  and then \<^verbatim>\<open>st.pipe(prog).pipe(uploadStream)\<close>, which throws when \<^verbatim>\<open>st\<close> has no
  \<^verbatim>\<open>pipe\<close> method.
\<close>

definition on_mpu_ready :: "nat option \<Rightarrow> ustate \<Rightarrow> ustate" where
  "on_mpu_ready r s =
     (case r of
        Some n \<Rightarrow> emit_error (External (UploaderError n)) s
      | None \<Rightarrow> (let s1 = s\<lparr>upload_listeners := True\<rparr>
                 in if pipeable (usource s) then s1\<lparr>piping := True\<rparr>
                    else throw_err (TypeError msg_pipe_not_fn) s1))"

definition msg_upload_failed :: string where
  "msg_upload_failed = ''Upload to Mapbox.com failed''"

text \<open>\<^verbatim>\<open>e = new Error(e || 'Upload to Mapbox.com failed')\<close>, lines 123--126.\<close>

definition on_upload_error :: "string option \<Rightarrow> ustate \<Rightarrow> ustate" where
  "on_upload_error p s =
     emit_error (Error (case p of None \<Rightarrow> msg_upload_failed | Some m \<Rightarrow> m) None) s"

text \<open>\<^verbatim>\<open>'uploaded'\<close>, lines 128--130: the finalizer with the same options and credentials.\<close>

definition on_uploaded :: "world \<Rightarrow> ustate \<Rightarrow> ustate" where
  "on_uploaded w s = create_upload w (uopts s) (ucreds s) s"

end
