(* ===== verification/Upload.thy ===== *)
theory Upload
  imports Creds Putfile
begin

text \<open>
  The orchestrator: \<^verbatim>\<open>upload(opts)\<close> (\<^verbatim>\<open>src/index.js\<close>, lines 16--27) and the event
  loop that drives it. \<open>upload\<close> is the synchronous call: it creates the progress
  stream, validates, and starts the credential request; an exception raised before it
  returns (an \<^verbatim>\<open>'error'\<close> emitted with no listener attached, or \<^verbatim>\<open>url.parse\<close>
  throwing) escapes to the caller, \<open>Inl\<close>. Afterwards the environment drives the upload
  one input at a time (\<open>step\<close>): the caller attaches a listener, or a library fires one
  of the callbacks the module registered. An input whose callback is not registered is
  not enabled (\<open>None\<close>), nor is any input after an uncaught exception. Every step
  appends one reaction to the trace. \<open>reachable\<close> is the set of states some run
  reaches; the invariants below hold in all of them.
\<close>

section \<open>The call and the steps\<close>

text \<open>The credential callback of lines 22--25, after \<^verbatim>\<open>upload.getcreds\<close>' handler.\<close>

definition on_creds :: "world \<Rightarrow> get_response \<Rightarrow> ustate \<Rightarrow> ustate" where
  "on_creds w r s =
     (case creds_response r of
        CbError e \<Rightarrow> emit_error e s
      | CbThrow e \<Rightarrow> throw_err e s
      | CbOk c \<Rightarrow> putfile w (uopts s) c s)"

text \<open>
  \<^verbatim>\<open>upload(opts)\<close>: validation runs before anyone can listen on the returned stream,
  so a validation error is emitted with no listener and thrown.
\<close>

definition upload :: "world \<Rightarrow> opts option \<Rightarrow> error + ustate" where
  "upload w oo =
     (let s0 = init_state (opts_defaults (env_proxy w) oo);
          s1 = (case upload_opts (env_proxy w) oo of
                  Inl e \<Rightarrow> emit_error e s0
                | Inr o1 \<Rightarrow> getcreds w o1 s0)
      in case crashed s1 of
           Some e \<Rightarrow> Inl e
         | None \<Rightarrow> Inr (s1\<lparr>outbox := [], trace := [(Call, outbox s1)]\<rparr>))"

text \<open>Which callback an input runs, if it is registered; request callbacks run once.\<close>

definition handle :: "world \<Rightarrow> input \<Rightarrow> ustate \<Rightarrow> ustate option" where
  "handle w i s =
     (case i of
        AttachErrorListener \<Rightarrow> Some (s\<lparr>err_listener := True\<rparr>)
      | CredsResp r \<Rightarrow>
          if creds_pending s then Some (on_creds w r (s\<lparr>creds_pending := False\<rparr>)) else None
      | MpuReady r \<Rightarrow>
          if mpu_pending s then Some (on_mpu_ready r (s\<lparr>mpu_pending := False\<rparr>)) else None
      | StreamLength n \<Rightarrow> if length_listener s then Some (prog_set_length (JNum (int n)) s) else None
      | SourceError n \<Rightarrow> if read_listener s then Some (on_read_error n s) else None
      | Chunk n \<Rightarrow> if piping s then Some (prog_chunk n s) else None
      | Tick \<Rightarrow> if piping s then Some (prog_tick s) else None
      | UploadError p \<Rightarrow> if upload_listeners s then Some (on_upload_error p s) else None
      | Uploaded \<Rightarrow> if upload_listeners s then Some (on_uploaded w s) else None
      | PostResp r \<Rightarrow>
          if post_pending s then Some (on_post r (s\<lparr>post_pending := False\<rparr>)) else None)"

definition step :: "world \<Rightarrow> ustate \<Rightarrow> input \<Rightarrow> ustate option" where
  "step w s i =
     (if crashed s \<noteq> None then None
      else (case handle w i (s\<lparr>outbox := []\<rparr>) of
              None \<Rightarrow> None
            | Some t \<Rightarrow> Some (t\<lparr>outbox := [], trace := trace s @ [(Input i, outbox t)]\<rparr>)))"

fun run :: "world \<Rightarrow> ustate \<Rightarrow> input list \<Rightarrow> ustate option" where
  "run w s [] = Some s"
| "run w s (i # ins) = (case step w s i of None \<Rightarrow> None | Some t \<Rightarrow> run w t ins)"

inductive reachable :: "world \<Rightarrow> ustate \<Rightarrow> bool" for w where
  call: "upload w oo = Inr s \<Longrightarrow> reachable w s"
| step: "reachable w s \<Longrightarrow> step w s i = Some t \<Longrightarrow> reachable w t"

inductive_cases reachable_stepE: "reachable w t"

text \<open>What the environment sees: the events on \<^verbatim>\<open>prog\<close>, in order.\<close>

definition events :: "ustate \<Rightarrow> event list" where
  "events s = concat (map (\<lambda>(t, outs). [e. Emit e \<leftarrow> outs]) (trace s))"

text \<open>The byte counts of the \<^verbatim>\<open>'stats'\<close> samples in a list of outputs, and in the whole trace.\<close>

fun stats_of :: "action list \<Rightarrow> nat list" where
  "stats_of [] = []"
| "stats_of (Emit (Stats p) # r) = transferred p # stats_of r"
| "stats_of (_ # r) = stats_of r"

lemma stats_of_append [simp]: "stats_of (xs @ ys) = stats_of xs @ stats_of ys"
  by (induction xs rule: stats_of.induct) auto

definition stats_seq :: "ustate \<Rightarrow> nat list" where
  "stats_seq s = concat (map (\<lambda>x. stats_of (snd x)) (trace s))"

definition creds_ok :: "jsval \<Rightarrow> bool" where
  "creds_ok c \<longleftrightarrow> truthy (prop_of c ''key'') \<and> truthy (prop_of c ''bucket'')"

definition normalized :: "world \<Rightarrow> opts \<Rightarrow> bool" where
  "normalized w o1 \<longleftrightarrow> valid_opts o1 \<and> js_or (proxy o1) (env_proxy w) = proxy o1"

section \<open>Runs and reachability\<close>

lemma run_reachable: "reachable w s \<Longrightarrow> run w s ins = Some t \<Longrightarrow> reachable w t"
proof (induction ins arbitrary: s)
  case Nil
  then show ?case by simp
next
  case (Cons i ins)
  then obtain s' where "step w s i = Some s'" and "run w s' ins = Some t"
    by (auto split: option.splits)
  with Cons show ?case by (blast intro: reachable.step)
qed

lemma run_append:
  "run w s (xs @ ys) = (case run w s xs of None \<Rightarrow> None | Some t \<Rightarrow> run w t ys)"
  by (induction xs arbitrary: s) (auto split: option.splits)

lemma step_Some:
  "step w s i = Some t \<Longrightarrow>
     \<exists>t'. crashed s = None \<and> handle w i (s\<lparr>outbox := []\<rparr>) = Some t' \<and>
          t = t'\<lparr>outbox := [], trace := trace s @ [(Input i, outbox t')]\<rparr>"
  by (auto simp: step_def split: if_splits option.splits)

lemma crashed_stuck: "crashed s \<noteq> None \<Longrightarrow> step w s i = None"
  by (simp add: step_def)

section \<open>Invariants\<close>

subsection \<open>Credentials bookkeeping\<close>

definition creds_inv :: "ustate \<Rightarrow> bool" where
  "creds_inv s \<longleftrightarrow>
     (creds_pending s \<longrightarrow> ucreds s = JUndef \<and> \<not> mpu_pending s \<and> \<not> upload_listeners s \<and> \<not> post_pending s) \<and>
     (ucreds s = JUndef \<or> creds_ok (ucreds s)) \<and>
     (mpu_pending s \<or> upload_listeners s \<longrightarrow> ucreds s \<noteq> JUndef)"

lemma creds_ok_JUndef [simp]: "\<not> creds_ok JUndef"
  by (simp add: creds_ok_def prop_of_def)

lemma normalized_revalidate: "normalized w o1 \<Longrightarrow> revalidate w o1 s k = k o1"
  by (simp add: normalized_def)

lemma putfile_ok:
  "normalized w o1 \<Longrightarrow> creds_ok c \<Longrightarrow> putfile w o1 c s = putfile_source w o1 c s"
  by (simp add: putfile_def normalized_revalidate creds_ok_def)

lemma create_upload_ok:
  "normalized w o1 \<Longrightarrow> creds_ok c \<Longrightarrow>
   create_upload w o1 c s = (send (Post (post_request o1 c)) s)\<lparr>post_pending := True\<rparr>"
  by (simp add: create_upload_def normalized_revalidate creds_ok_def)

lemma creds_response_ok:
  "creds_response r = CbOk c \<Longrightarrow> r = Inr (200, Some c) \<and> creds_ok c"
  using creds_response_CbOk by (simp add: creds_ok_def)

subsection \<open>What each handler changes\<close>

text \<open>Outputs other than an error event or an opened file.\<close>

fun err_or_open :: "action \<Rightarrow> bool" where
  "err_or_open (Emit (ErrorEv _)) = True"
| "err_or_open (OpenRead _) = True"
| "err_or_open _ = False"

lemma putfile_source_fields:
  "uopts (putfile_source w o1 c s) = uopts s \<and> trace (putfile_source w o1 c s) = trace s \<and>
   err_listener (putfile_source w o1 c s) = err_listener s \<and>
   creds_pending (putfile_source w o1 c s) = creds_pending s \<and>
   post_pending (putfile_source w o1 c s) = post_pending s \<and>
   upload_listeners (putfile_source w o1 c s) = upload_listeners s \<and>
   piping (putfile_source w o1 c s) = piping s \<and>
   prog_transferred (putfile_source w o1 c s) = prog_transferred s \<and>
   (ucreds (putfile_source w o1 c s) = ucreds s \<and> mpu_pending (putfile_source w o1 c s) = mpu_pending s \<or>
    ucreds (putfile_source w o1 c s) = c \<and> mpu_pending (putfile_source w o1 c s))"
  by (auto simp: putfile_source_def start_upload_def prog_set_length_def Let_def
      split: option.splits jsval.splits)

lemma putfile_source_outbox:
  assumes "a \<in> set (outbox (putfile_source w o1 c s))" "a \<notin> set (outbox s)"
  shows "err_or_open a \<or> (a = S3 (s3_request c) \<and> ucreds (putfile_source w o1 c s) = c)"
  using assms
  by (auto simp: putfile_source_def start_upload_def prog_set_length_def Let_def
      dest!: outbox_emit_errorD split: option.splits jsval.splits if_splits)


lemma putfile_source_read_listener:
  "truthy (stream o1) \<Longrightarrow> read_listener (putfile_source w o1 c s) = read_listener s"
  by (simp add: putfile_source_def start_upload_def prog_set_length_def Let_def)

lemma putfile_source_no_stats:
  "a \<in> set (outbox (putfile_source w o1 c s)) \<Longrightarrow> a \<notin> set (outbox s) \<Longrightarrow> a \<noteq> Emit (Stats p)"
  using putfile_source_outbox by fastforce

subsection \<open>The trace predicate\<close>

text \<open>Which trigger may have produced an output: the request to register only on
  \<^verbatim>\<open>'uploaded'\<close>, the storage upload only on a 200 credential response with a key and
  a bucket, \<^verbatim>\<open>'finished'\<close> only on a 201, the credential request only in the call, a
  sample only on the progress timer.\<close>

fun action_ok :: "opts \<Rightarrow> jsval \<Rightarrow> bool \<Rightarrow> trigger \<Rightarrow> action \<Rightarrow> bool" where
  "action_ok o1 c cp t (Post r) = (t = Input Uploaded \<and> r = post_request o1 c)"
| "action_ok o1 c cp t (S3 q) =
     (t = Input (CredsResp (Inr (200, Some c))) \<and> creds_ok c \<and> q = s3_request c \<and> \<not> cp)"
| "action_ok o1 c cp t (Get g) = (t = Call)"
| "action_ok o1 c cp t (Emit (Finished b)) = (t = Input (PostResp (Inr (201, b))))"
| "action_ok o1 c cp t (Emit (Stats p)) = (t = Input Tick)"
| "action_ok o1 c cp t (Emit (ErrorEv e)) = True"
| "action_ok o1 c cp t (OpenRead f) = True"

definition reaction_ok :: "opts \<Rightarrow> jsval \<Rightarrow> bool \<Rightarrow> trigger \<times> action list \<Rightarrow> bool" where
  "reaction_ok o1 c cp x \<longleftrightarrow>
     list_all (action_ok o1 c cp (fst x)) (snd x) \<and>
     (fst x = Input Uploaded \<longrightarrow> snd x = [Post (post_request o1 c)] \<and> \<not> cp)"

lemma action_ok_err_or_open: "err_or_open a \<Longrightarrow> action_ok o1 c cp t a"
  by (cases a rule: err_or_open.cases) auto

lemma reaction_ok_pending:
  assumes "reaction_ok o1 c True x"
  shows "reaction_ok o1 c' cp' x"
proof -
  obtain t outs where x: "x = (t, outs)" by fastforce
  from assms x have t: "t \<noteq> Input Uploaded" by (simp add: reaction_ok_def)
  have "action_ok o1 c' cp' t a" if "action_ok o1 c True t a" for a
    using that t by (cases "(o1, c, True, t, a)" rule: action_ok.cases) auto
  with assms x t show ?thesis by (auto simp: reaction_ok_def list_all_iff)
qed

lemma reaction_ok_mono:
  "reaction_ok o1 c cp x \<Longrightarrow> cp \<or> (c' = c \<and> (cp' \<longrightarrow> cp)) \<Longrightarrow> reaction_ok o1 c' cp' x"
  using reaction_ok_pending [of o1 c x c' cp'] by (cases cp) auto


subsection \<open>One step\<close>

lemma stats_of_err_or_open: "err_or_open a \<Longrightarrow> stats_of [a] = []"
  by (cases a rule: err_or_open.cases) auto

lemma stats_of_nil: "\<forall>a \<in> set xs. \<forall>p. a \<noteq> Emit (Stats p) \<Longrightarrow> stats_of xs = []"
  by (induction xs rule: stats_of.induct) auto

lemma stats_of_errors: "\<forall>a \<in> set xs. \<exists>e. a = Emit (ErrorEv e) \<Longrightarrow> stats_of xs = []"
  by (rule stats_of_nil) auto

lemma emit_error_only_errors:
  "outbox s = [] \<Longrightarrow> \<forall>a \<in> set (outbox (emit_error e s)). \<exists>e'. a = Emit (ErrorEv e')"
  by (auto dest: outbox_emit_errorD)

definition step_ok :: "ustate \<Rightarrow> input \<Rightarrow> ustate \<Rightarrow> bool" where
  "step_ok s i t \<longleftrightarrow>
     uopts t = uopts s \<and> trace t = trace s \<and> creds_inv t \<and>
     (creds_pending t \<longrightarrow> creds_pending s) \<and> (ucreds t = ucreds s \<or> creds_pending s) \<and>
     reaction_ok (uopts s) (ucreds t) (creds_pending t) (Input i, outbox t) \<and>
     (truthy (stream (uopts s)) \<longrightarrow> read_listener t \<longrightarrow> read_listener s) \<and>
     prog_transferred s \<le> prog_transferred t \<and>
     list_all (\<lambda>x. x = prog_transferred t) (stats_of (outbox t))"

text \<open>A step that only emits errors (or nothing) and changes no bookkeeping field.\<close>

lemma step_ok_errors:
  assumes "creds_inv s"
    and "uopts t = uopts s" "trace t = trace s" "ucreds t = ucreds s"
    and "creds_pending t = creds_pending s" "mpu_pending t = mpu_pending s \<or> \<not> mpu_pending t"
    and "upload_listeners t = upload_listeners s" "post_pending t = post_pending s \<or> \<not> post_pending t"
    and "read_listener t = read_listener s" "prog_transferred t = prog_transferred s"
    and "\<forall>a \<in> set (outbox t). \<exists>e. a = Emit (ErrorEv e)" "i \<noteq> Uploaded"
  shows "step_ok s i t"
proof -
  from assms(11) have "list_all (action_ok (uopts s) (ucreds t) (creds_pending t) (Input i)) (outbox t)"
    by (auto simp: list_all_iff)
  moreover from assms(11) have "stats_of (outbox t) = []" by (rule stats_of_errors)
  ultimately show ?thesis using assms
    by (auto simp: step_ok_def creds_inv_def reaction_ok_def)
qed


lemma step_ok_creds:
  assumes inv: "creds_inv s" and nrm: "normalized w (uopts s)" and pend: "creds_pending s"
    and t: "t = on_creds w r (s\<lparr>outbox := [], creds_pending := False\<rparr>)"
  shows "step_ok s (CredsResp r) t"
proof (cases "creds_response r")
  case (CbError e)
  with t have t': "t = emit_error e (s\<lparr>outbox := [], creds_pending := False\<rparr>)"
    by (simp add: on_creds_def)
  from pend inv have "\<not> mpu_pending s" "\<not> post_pending s" "\<not> upload_listeners s"
    by (simp_all add: creds_inv_def)
  moreover have "\<forall>a \<in> set (outbox t). \<exists>e'. a = Emit (ErrorEv e')"
    unfolding t' by (rule emit_error_only_errors) simp
  ultimately show ?thesis using inv t' pend
    by (auto simp: step_ok_def creds_inv_def reaction_ok_def list_all_iff stats_of_errors)
next
  case (CbThrow e)
  from pend inv have "\<not> mpu_pending s" "\<not> post_pending s" "\<not> upload_listeners s" "ucreds s = JUndef"
    by (simp_all add: creds_inv_def)
  with CbThrow t show ?thesis
    by (simp add: on_creds_def step_ok_def creds_inv_def reaction_ok_def)
next
  case (CbOk c)
  let ?s1 = "s\<lparr>outbox := [], creds_pending := False\<rparr>"
  from CbOk have r: "r = Inr (200, Some c)" and ok: "creds_ok c" by (simp_all add: creds_response_ok)
  from CbOk nrm ok t have t': "t = putfile_source w (uopts s) c ?s1"
    by (simp add: on_creds_def putfile_ok)
  note f = putfile_source_fields [of w "uopts s" c ?s1, folded t']
  from pend inv have u: "ucreds s = JUndef" "\<not> mpu_pending s" "\<not> upload_listeners s" "\<not> post_pending s"
    by (simp_all add: creds_inv_def)
  have outs: "err_or_open a \<or> (a = S3 (s3_request c) \<and> ucreds t = c)" if "a \<in> set (outbox t)" for a
    using putfile_source_outbox [of a w "uopts s" c ?s1] that t' by simp
  from f u ok have ci: "creds_inv t" by (auto simp: creds_inv_def)
  have "action_ok (uopts s) (ucreds t) False (Input (CredsResp r)) a" if "a \<in> set (outbox t)" for a
    using outs [OF that] r ok by (auto simp: action_ok_err_or_open)
  then have ra: "reaction_ok (uopts s) (ucreds t) (creds_pending t) (Input (CredsResp r), outbox t)"
    using f by (simp add: reaction_ok_def list_all_iff)
  have "stats_of (outbox t) = []"
    by (rule stats_of_nil) (use outs in \<open>fastforce\<close>)
  moreover have "truthy (stream (uopts s)) \<longrightarrow> read_listener t \<longrightarrow> read_listener s"
    using putfile_source_read_listener t' by simp
  ultimately show ?thesis using f ci ra pend by (simp add: step_ok_def)
qed


lemma step_ok_uploaded:
  assumes inv: "creds_inv s" and nrm: "normalized w (uopts s)" and l: "upload_listeners s"
    and t: "t = on_uploaded w (s\<lparr>outbox := []\<rparr>)"
  shows "step_ok s Uploaded t"
proof -
  from inv l have ok: "creds_ok (ucreds s)" and np: "\<not> creds_pending s"
    by (auto simp: creds_inv_def)
  with nrm t have t': "t = (send (Post (post_request (uopts s) (ucreds s))) (s\<lparr>outbox := []\<rparr>))\<lparr>post_pending := True\<rparr>"
    by (simp add: on_uploaded_def create_upload_ok)
  from inv np show ?thesis
    unfolding t' by (simp add: step_ok_def creds_inv_def reaction_ok_def)
qed

lemma step_ok_post:
  assumes inv: "creds_inv s" and t: "t = on_post r (s\<lparr>outbox := [], post_pending := False\<rparr>)"
  shows "step_ok s (PostResp r) t"
proof (cases "finalize_response r")
  case (CbOk b)
  then have "r = Inr (201, b)"
    by (auto simp: finalize_response_def split: sum.splits if_splits)
  with CbOk inv t show ?thesis
    by (simp add: on_post_eq step_ok_def creds_inv_def reaction_ok_def)
next
  case (CbError e)
  with t have t': "t = emit_error e (s\<lparr>outbox := [], post_pending := False\<rparr>)" by (simp add: on_post_eq)
  have "\<forall>a \<in> set (outbox t). \<exists>e'. a = Emit (ErrorEv e')"
    unfolding t' by (rule emit_error_only_errors) simp
  with inv t' show ?thesis by (intro step_ok_errors) simp_all
next
  case (CbThrow e)
  with inv t show ?thesis by (intro step_ok_errors) (simp_all add: on_post_eq)
qed

lemma step_ok_mpu:
  assumes inv: "creds_inv s" and m: "mpu_pending s"
    and t: "t = on_mpu_ready r (s\<lparr>outbox := [], mpu_pending := False\<rparr>)"
  shows "step_ok s (MpuReady r) t"
proof (cases r)
  case None
  from inv m have "ucreds s \<noteq> JUndef" "\<not> creds_pending s" by (auto simp: creds_inv_def)
  with None inv t show ?thesis
    by (simp add: on_mpu_ready_def step_ok_def creds_inv_def reaction_ok_def Let_def)
next
  case (Some n)
  with t have t': "t = emit_error (External (UploaderError n)) (s\<lparr>outbox := [], mpu_pending := False\<rparr>)"
    by (simp add: on_mpu_ready_def)
  have "\<forall>a \<in> set (outbox t). \<exists>e'. a = Emit (ErrorEv e')"
    unfolding t' by (rule emit_error_only_errors) simp
  with inv t' show ?thesis by (intro step_ok_errors) simp_all
qed

lemma step_ok_emit:
  assumes inv: "creds_inv s" and t: "t = emit_error e (s\<lparr>outbox := []\<rparr>)" and i: "i \<noteq> Uploaded"
  shows "step_ok s i t"
proof -
  have "\<forall>a \<in> set (outbox t). \<exists>e'. a = Emit (ErrorEv e')"
    unfolding t by (rule emit_error_only_errors) simp
  with inv t i show ?thesis by (intro step_ok_errors) simp_all
qed

lemma step_ok_tick:
  assumes inv: "creds_inv s" and t: "t = prog_tick (s\<lparr>outbox := []\<rparr>)"
  shows "step_ok s Tick t"
  using inv t by (simp add: prog_tick_def on_progress_def step_ok_def creds_inv_def reaction_ok_def)

lemma step_ok_chunk:
  assumes inv: "creds_inv s" and t: "t = prog_chunk n (s\<lparr>outbox := []\<rparr>)"
  shows "step_ok s (Chunk n) t"
  using inv t by (simp add: prog_chunk_def step_ok_def creds_inv_def reaction_ok_def)

lemma step_ok_length:
  assumes inv: "creds_inv s" and t: "t = prog_set_length v (s\<lparr>outbox := []\<rparr>)"
  shows "step_ok s (StreamLength n) t"
  using inv t by (simp add: prog_set_length_def step_ok_def creds_inv_def reaction_ok_def)

lemma step_ok_attach:
  assumes inv: "creds_inv s" and t: "t = s\<lparr>outbox := [], err_listener := True\<rparr>"
  shows "step_ok s AttachErrorListener t"
  using inv t by (simp add: step_ok_def creds_inv_def reaction_ok_def)

lemma handle_step_ok:
  assumes inv: "creds_inv s" and nrm: "normalized w (uopts s)"
    and h: "handle w i (s\<lparr>outbox := []\<rparr>) = Some t"
  shows "step_ok s i t"
proof (cases i)
  case AttachErrorListener
  with h inv show ?thesis by (simp add: handle_def step_ok_attach)
next
  case (CredsResp r)
  with h have "creds_pending s" "t = on_creds w r (s\<lparr>outbox := [], creds_pending := False\<rparr>)"
    by (auto simp: handle_def split: if_splits)
  with inv nrm CredsResp show ?thesis by (simp add: step_ok_creds)
next
  case (MpuReady r)
  with h have "mpu_pending s" "t = on_mpu_ready r (s\<lparr>outbox := [], mpu_pending := False\<rparr>)"
    by (auto simp: handle_def split: if_splits)
  with inv MpuReady show ?thesis by (simp add: step_ok_mpu)
next
  case (StreamLength n)
  with h inv show ?thesis by (auto simp: handle_def step_ok_length split: if_splits)
next
  case (SourceError n)
  with h inv show ?thesis by (auto simp: handle_def on_read_error_def step_ok_emit split: if_splits)
next
  case (Chunk n)
  with h inv show ?thesis by (auto simp: handle_def step_ok_chunk split: if_splits)
next
  case Tick
  with h inv show ?thesis by (auto simp: handle_def step_ok_tick split: if_splits)
next
  case (UploadError p)
  with h inv show ?thesis by (auto simp: handle_def on_upload_error_def step_ok_emit split: if_splits)
next
  case Uploaded
  with h inv nrm show ?thesis by (auto simp: handle_def step_ok_uploaded split: if_splits)
next
  case (PostResp r)
  with h inv show ?thesis by (auto simp: handle_def step_ok_post split: if_splits)
qed

subsection \<open>The invariant of a running upload\<close>

definition ustate_inv :: "world \<Rightarrow> ustate \<Rightarrow> bool" where
  "ustate_inv w s \<longleftrightarrow>
     normalized w (uopts s) \<and> creds_inv s \<and> outbox s = [] \<and>
     (truthy (stream (uopts s)) \<longrightarrow> \<not> read_listener s) \<and>
     sorted (stats_seq s) \<and> (\<forall>x \<in> set (stats_seq s). x \<le> prog_transferred s) \<and>
     list_all (reaction_ok (uopts s) (ucreds s) (creds_pending s)) (trace s)"

lemma upload_Inr:
  assumes "upload w oo = Inr s"
  shows "\<exists>o1 r. upload_opts (env_proxy w) oo = Inr o1 \<and> creds_request o1 = Inr r \<and>
           s = (init_state (opts_defaults (env_proxy w) oo))
                 \<lparr>uopts := o1, creds_pending := True, trace := [(Call, [Get r])]\<rparr>"
proof -
  let ?s0 = "init_state (opts_defaults (env_proxy w) oo)"
  obtain o1 where o1: "upload_opts (env_proxy w) oo = Inr o1"
    using assms by (cases "upload_opts (env_proxy w) oo")
      (auto simp: upload_def emit_error_def throw_err_def init_state_def)
  then have n: "valid_opts o1 \<and> js_or (proxy o1) (env_proxy w) = proxy o1"
    by (rule upload_opts_Inr_normal)
  then have fx: "upload_opts (env_proxy w) (Some o1) = Inr o1" using upload_opts_fix by blast
  obtain r where r: "creds_request o1 = Inr r"
    using assms o1 fx by (cases "creds_request o1") (auto simp: upload_def getcreds_def init_state_def)
  from assms o1 fx r show ?thesis
    by (auto simp: upload_def getcreds_def init_state_def send_def)
qed

lemma upload_inv:
  assumes "upload w oo = Inr s"
  shows "ustate_inv w s"
proof -
  from upload_Inr [OF assms] obtain o1 r where o1: "upload_opts (env_proxy w) oo = Inr o1"
    and s: "s = (init_state (opts_defaults (env_proxy w) oo))
                 \<lparr>uopts := o1, creds_pending := True, trace := [(Call, [Get r])]\<rparr>" by blast
  from upload_opts_Inr_normal [OF o1] have "normalized w o1" by (simp add: normalized_def)
  then show ?thesis
    by (simp add: s ustate_inv_def init_state_def creds_inv_def stats_seq_def reaction_ok_def)
qed

lemma sorted_const: "list_all (\<lambda>x. x = k) ys \<Longrightarrow> sorted ys"
  by (induction ys) (auto simp: list_all_iff)

lemma step_inv:
  assumes inv: "ustate_inv w s" and st: "step w s i = Some t"
  shows "ustate_inv w t"
proof -
  from step_Some [OF st] obtain t' where h: "handle w i (s\<lparr>outbox := []\<rparr>) = Some t'"
    and t: "t = t'\<lparr>outbox := [], trace := trace s @ [(Input i, outbox t')]\<rparr>" by blast
  from inv have ci: "creds_inv s" and nrm: "normalized w (uopts s)"
    by (simp_all add: ustate_inv_def)
  from handle_step_ok [OF ci nrm h] have ok: "step_ok s i t'" .
  then have fr: "uopts t' = uopts s" "creds_pending t' \<longrightarrow> creds_pending s"
    "ucreds t' = ucreds s \<or> creds_pending s" "prog_transferred s \<le> prog_transferred t'"
    and new: "reaction_ok (uopts s) (ucreds t') (creds_pending t') (Input i, outbox t')"
    and st_new: "list_all (\<lambda>x. x = prog_transferred t') (stats_of (outbox t'))"
    by (simp_all add: step_ok_def)
  have ss: "stats_seq t = stats_seq s @ stats_of (outbox t')"
    by (simp add: t stats_seq_def)
  have old: "list_all (reaction_ok (uopts s) (ucreds t') (creds_pending t')) (trace s)"
    using inv fr reaction_ok_mono [of "uopts s" "ucreds s" "creds_pending s" _ "ucreds t'" "creds_pending t'"]
    by (auto simp: ustate_inv_def list_all_iff)
  have sorted: "sorted (stats_seq t)"
    using inv fr(4) st_new sorted_const [OF st_new]
    by (auto simp: ss ustate_inv_def sorted_append list_all_iff)
  have "prog_transferred t = prog_transferred t'" by (simp add: t)
  then have bound: "\<forall>x \<in> set (stats_seq t). x \<le> prog_transferred t"
    unfolding ss using inv fr(4) st_new by (auto simp: ustate_inv_def list_all_iff)
  from ok inv fr(1) have "creds_inv t'" "truthy (stream (uopts s)) \<longrightarrow> \<not> read_listener t'"
    by (auto simp: step_ok_def ustate_inv_def)
  then have "creds_inv t" "truthy (stream (uopts t)) \<longrightarrow> \<not> read_listener t"
    using fr(1) by (simp_all add: t creds_inv_def)
  with nrm fr(1) old new sorted bound show ?thesis
    by (simp add: ustate_inv_def t)
qed

lemma reachable_inv: "reachable w s \<Longrightarrow> ustate_inv w s"
proof (induction rule: reachable.induct)
  case (call oo s)
  then show ?case by (rule upload_inv)
next
  case (step s i t)
  then show ?case by (blast intro: step_inv)
qed

lemma reachable_reaction:
  "reachable w s \<Longrightarrow> x \<in> set (trace s) \<Longrightarrow> reaction_ok (uopts s) (ucreds s) (creds_pending s) x"
  using reachable_inv by (auto simp: ustate_inv_def list_all_iff)

lemma step_uopts: "reachable w s \<Longrightarrow> step w s i = Some t \<Longrightarrow> uopts t = uopts s"
proof -
  assume r: "reachable w s" and st: "step w s i = Some t"
  from step_Some [OF st] obtain t' where h: "handle w i (s\<lparr>outbox := []\<rparr>) = Some t'"
    and t: "t = t'\<lparr>outbox := [], trace := trace s @ [(Input i, outbox t')]\<rparr>" by blast
  from reachable_inv [OF r] have "creds_inv s" and "normalized w (uopts s)"
    by (simp_all add: ustate_inv_def)
  from handle_step_ok [OF this h] show ?thesis by (simp add: t step_ok_def)
qed

section \<open>Example runs\<close>

text \<open>
  The run of the spec's first end-to-end scenario: a file upload for account
  \<^verbatim>\<open>acme\<close>, credentials \<^verbatim>\<open>{key: "k1", bucket: "b1"}\<close>, two chunks with a
  progress sample after each, storage success and a 201 from the finalizer. A second
  run uploads a caller-supplied stream.
\<close>

definition ex_world :: world where
  "ex_world = \<lparr>env_proxy = JUndef, fs_size = (\<lambda>p. if p = ''data.mbtiles'' then Some 1000 else None)\<rparr>"

definition ex_creds :: jsval where
  "ex_creds = JObj [(''key'', JStr ''k1''), (''bucket'', JStr ''b1'')]"

definition ex_job :: jsval where
  "ex_job = JObj [(''id'', JStr ''acme.mytileset''), (''status'', JStr ''queued'')]"

definition ex_inputs :: "input list" where
  "ex_inputs = [AttachErrorListener, CredsResp (Inr (200, Some ex_creds)), MpuReady None, Chunk 500,
     Tick, Chunk 500, Tick, Uploaded, PostResp (Inr (201, ex_job))]"

definition run_from_call :: "world \<Rightarrow> opts option \<Rightarrow> input list \<Rightarrow> ustate option" where
  "run_from_call w oo ins = (case upload w oo of Inl _ \<Rightarrow> None | Inr s \<Rightarrow> run w s ins)"

definition ex_state :: ustate where
  "ex_state = (case run_from_call ex_world (Some example_opts) ex_inputs of
      Some t \<Rightarrow> t | None \<Rightarrow> init_state empty_opts)"

definition ex_stream_opts :: opts where
  "ex_stream_opts = example_opts\<lparr>file_opt := JUndef, stream := JEmitter 1\<rparr>"

definition ex_stream_state :: ustate where
  "ex_stream_state = (case run_from_call ex_world (Some ex_stream_opts)
      [AttachErrorListener, CredsResp (Inr (200, Some ex_creds)), MpuReady None] of
      Some t \<Rightarrow> t | None \<Rightarrow> init_state empty_opts)"

lemma run_from_call_reachable: "run_from_call w oo ins = Some t \<Longrightarrow> reachable w t"
  by (cases "upload w oo") (auto simp: run_from_call_def intro: reachable.call run_reachable)

lemma ex_run: "run_from_call ex_world (Some example_opts) ex_inputs = Some ex_state"
  by code_simp

lemma ex_reachable: "reachable ex_world ex_state"
  using ex_run by (rule run_from_call_reachable)

lemma ex_stream_run:
  "run_from_call ex_world (Some ex_stream_opts)
     [AttachErrorListener, CredsResp (Inr (200, Some ex_creds)), MpuReady None] = Some ex_stream_state"
  by code_simp

lemma ex_stream_reachable: "reachable ex_world ex_stream_state"
  using ex_stream_run by (rule run_from_call_reachable)

section \<open>Properties of the orchestrator\<close>

text \<open>
  C1: the job is registered only when the upload stream reports \<^verbatim>\<open>'uploaded'\<close>, and
  every \<^verbatim>\<open>'uploaded'\<close> is answered by exactly the registration request built from the
  validated options and the credentials: the finalizer's guards never fire.
\<close>

theorem post_only_on_uploaded:
  assumes "reachable w s" and "(t, outs) \<in> set (trace s)"
  shows "(\<forall>r. Post r \<in> set outs \<longrightarrow> t = Input Uploaded) \<and>
         (t = Input Uploaded \<longrightarrow> outs = [Post (post_request (uopts s) (ucreds s))])"
  using reachable_reaction [OF assms] by (auto simp: reaction_ok_def list_all_iff)

text \<open>The registration request of the example run, as the code builds it.\<close>

definition ex_post :: post_req where
  "ex_post = \<lparr>preq_uri = ''https://api.tiles.mapbox.com/uploads/v1/acme?access_token=tok'',
     preq_proxy = JUndef,
     preq_json = JObj [(''id'', JStr ''acme.mytileset''), (''url'', JStr ''http://b1.s3.amazonaws.com/k1''),
                       (''data'', JStr ''acme.mytileset'')]\<rparr>"

theorem post_only_on_uploaded_witness:
  "reachable ex_world ex_state \<and> (Input Uploaded, [Post ex_post]) \<in> set (trace ex_state) \<and>
   ex_post = post_request (uopts ex_state) (ucreds ex_state)"
proof -
  have m: "(Input Uploaded, [Post ex_post]) \<in> set (trace ex_state)" by code_simp
  from post_only_on_uploaded [OF ex_reachable m] m ex_reachable show ?thesis by simp
qed

text \<open>
  C2: the multipart upload to storage is started only in reaction to a 200 credential
  response whose body has a truthy \<^verbatim>\<open>key\<close> and \<^verbatim>\<open>bucket\<close>; it uses that body's
  bucket, key and keys, and it is the body the finalizer later uses.
\<close>

theorem storage_only_after_creds:
  assumes "reachable w s" and "(t, outs) \<in> set (trace s)" and "S3 q \<in> set outs"
  shows "t = Input (CredsResp (Inr (200, Some (ucreds s)))) \<and> creds_ok (ucreds s) \<and>
         q = s3_request (ucreds s)"
  using reachable_reaction [OF assms(1,2)] assms(3) by (auto simp: reaction_ok_def list_all_iff)

theorem storage_only_after_creds_witness:
  "reachable ex_world ex_state \<and>
   (Input (CredsResp (Inr (200, Some ex_creds))), [OpenRead ''data.mbtiles'', S3 (s3_request ex_creds)])
     \<in> set (trace ex_state) \<and>
   ucreds ex_state = ex_creds \<and> creds_ok ex_creds"
proof -
  have m: "(Input (CredsResp (Inr (200, Some ex_creds))), [OpenRead ''data.mbtiles'', S3 (s3_request ex_creds)])
     \<in> set (trace ex_state)" by code_simp
  have c: "ucreds ex_state = ex_creds" by code_simp
  have "S3 (s3_request ex_creds) \<in> set [OpenRead ''data.mbtiles'', S3 (s3_request ex_creds)]" by simp
  from storage_only_after_creds [OF ex_reachable m this] have "creds_ok (ucreds ex_state)"
    by (elim conjE)
  with m c ex_reachable show ?thesis by simp
qed

text \<open>C3: \<^verbatim>\<open>'finished'\<close> is emitted only in reaction to a 201 from the finalize request, with its body.\<close>

theorem finished_only_on_201:
  assumes "reachable w s" and "(t, outs) \<in> set (trace s)" and "Emit (Finished b) \<in> set outs"
  shows "t = Input (PostResp (Inr (201, b)))"
  using reachable_reaction [OF assms(1,2)] assms(3) by (auto simp: reaction_ok_def list_all_iff)

theorem finished_only_on_201_witness:
  "reachable ex_world ex_state \<and>
   (Input (PostResp (Inr (201, ex_job))), [Emit (Finished ex_job)]) \<in> set (trace ex_state)"
proof -
  have m: "(Input (PostResp (Inr (201, ex_job))), [Emit (Finished ex_job)]) \<in> set (trace ex_state)"
    by code_simp
  from finished_only_on_201 [OF ex_reachable m] m ex_reachable show ?thesis by simp
qed

text \<open>
  C5: \<^verbatim>\<open>upload(opts)\<close> with options the validator rejects throws the validation error
  to its caller: the error is emitted on the fresh progress stream before any listener
  can be attached, and no request is made.
\<close>

theorem upload_validation_throws:
  assumes "upload_opts (env_proxy w) oo = Inl e"
  shows "upload w oo = Inl e"
  using assms by (simp add: upload_def emit_error_def throw_err_def init_state_def)

definition ex_bad_opts :: opts where
  "ex_bad_opts = example_opts\<lparr>mapid := JStr ''other.tileset''\<rparr>"

theorem upload_validation_throws_witness:
  "upload_opts JUndef (Some ex_bad_opts) =
     Inl (Error ''Invalid mapid \"other.tileset\" for account \"acme\"'' None) \<and>
   upload ex_world (Some ex_bad_opts) =
     Inl (Error ''Invalid mapid \"other.tileset\" for account \"acme\"'' None)"
proof -
  have v: "upload_opts (env_proxy ex_world) (Some ex_bad_opts) =
     Inl (Error ''Invalid mapid \"other.tileset\" for account \"acme\"'' None)"
    by code_simp
  from upload_validation_throws [OF v] v show ?thesis by (simp add: ex_world_def)
qed

text \<open>
  C6: for a caller-supplied stream the module registers no listener for source errors,
  so a failing source stream never produces an event on the progress stream.
\<close>

theorem stream_source_errors_unobserved:
  assumes "reachable w s" and "truthy (stream (uopts s))"
  shows "step w s (SourceError n) = None"
proof -
  from reachable_inv [OF assms(1)] assms(2) have "\<not> read_listener s" by (simp add: ustate_inv_def)
  then show ?thesis by (simp add: step_def handle_def)
qed

theorem stream_source_errors_unobserved_witness:
  "truthy (stream (uopts ex_stream_state)) \<and> piping ex_stream_state \<and>
   step ex_world ex_stream_state (SourceError 7) = None"
proof -
  have "truthy (stream (uopts ex_stream_state))" "piping ex_stream_state" by code_simp+
  with stream_source_errors_unobserved [OF ex_stream_reachable] show ?thesis by simp
qed

end
