(* ===== verification/Stages.thy ===== *)
theory Stages
  imports Upload
begin

text \<open>
  The stage machine of the specification (\<^verbatim>\<open>Init \<rightarrow> Validated \<rightarrow>
  CredentialsAcquired \<rightarrow> Stored \<rightarrow> Finalized\<close>, with \<^verbatim>\<open>Failed\<close> reachable from
  every non-terminal stage) as an abstract step relation, and the abstraction
  \<open>stage_of\<close> that reads the stage of one upload off the state of the model: a
  \<^verbatim>\<open>'finished'\<close> event, an \<^verbatim>\<open>'error'\<close> event or an uncaught exception, an
  \<^verbatim>\<open>'uploaded'\<close> from storage, credentials handed to the engine. The theorems: the
  call ends in \<^verbatim>\<open>Validated\<close>, every step of the event loop from a non-terminal stage
  is a step of the stage machine or leaves the stage unchanged (a simulation up to
  stuttering), and every accepted upload can be driven to \<^verbatim>\<open>Finalized\<close>.
\<close>

section \<open>The abstract stage machine\<close>

datatype stage = Init | Validated | CredentialsAcquired | Stored | Finalized | Failed

inductive stage_step :: "stage \<Rightarrow> stage \<Rightarrow> bool" where
  validate: "stage_step Init Validated"
| acquire: "stage_step Validated CredentialsAcquired"
| store: "stage_step CredentialsAcquired Stored"
| finalize: "stage_step Stored Finalized"
| fail: "p \<noteq> Finalized \<Longrightarrow> p \<noteq> Failed \<Longrightarrow> stage_step p Failed"

code_pred stage_step .

inductive_simps stage_step_simps: "stage_step p q"

definition terminal :: "stage \<Rightarrow> bool" where
  "terminal p \<longleftrightarrow> p = Finalized \<or> p = Failed"

section \<open>The abstraction\<close>

fun is_finished_ev :: "event \<Rightarrow> bool" where
  "is_finished_ev (Finished _) = True"
| "is_finished_ev _ = False"

fun is_error_ev :: "event \<Rightarrow> bool" where
  "is_error_ev (ErrorEv _) = True"
| "is_error_ev _ = False"

definition uploaded_seen :: "ustate \<Rightarrow> bool" where
  "uploaded_seen s \<longleftrightarrow> list_ex (\<lambda>x. fst x = Input Uploaded) (trace s)"

text \<open>
  The credentials are acquired once the engine holds them (\<open>ucreds\<close>, set when the
  storage upload is started); the object is stored once storage reported
  \<^verbatim>\<open>'uploaded'\<close>. A terminal event or an uncaught exception decides first.
\<close>

definition stage_of :: "ustate \<Rightarrow> stage" where
  "stage_of s =
     (if list_ex is_finished_ev (events s) then Finalized
      else if list_ex is_error_ev (events s) \<or> crashed s \<noteq> None then Failed
      else if uploaded_seen s then Stored
      else if ucreds s \<noteq> JUndef then CredentialsAcquired
      else Validated)"

section \<open>Invariants the simulation needs\<close>

lemma handle_post_pending:
  assumes "handle w i s = Some t" and "post_pending t"
  shows "post_pending s \<or> i = Uploaded"
  using assms
  by (cases i) (auto simp: handle_def on_creds_def putfile_def putfile_source_fields revalidate_def
      creds_guard_def on_mpu_ready_def on_read_error_def on_upload_error_def on_post_eq
      prog_set_length_def prog_chunk_def prog_tick_def on_progress_def Let_def
      split: if_splits option.splits sum.splits cb_result.splits)

definition stage_inv :: "ustate \<Rightarrow> bool" where
  "stage_inv s \<longleftrightarrow>
     (post_pending s \<longrightarrow> uploaded_seen s) \<and> (uploaded_seen s \<longrightarrow> ucreds s \<noteq> JUndef)"

lemma step_trace:
  assumes "step w s i = Some t"
  shows "\<exists>t'. handle w i (s\<lparr>outbox := []\<rparr>) = Some t' \<and> crashed s = None \<and>
           t = t'\<lparr>outbox := [], trace := trace s @ [(Input i, outbox t')]\<rparr>"
  using assms by (auto simp: step_def split: if_splits option.splits)

lemma step_stage_inv:
  assumes inv: "ustate_inv w s" and si: "stage_inv s" and st: "step w s i = Some t"
  shows "stage_inv t"
proof -
  from step_trace [OF st] obtain t' where h: "handle w i (s\<lparr>outbox := []\<rparr>) = Some t'"
    and t: "t = t'\<lparr>outbox := [], trace := trace s @ [(Input i, outbox t')]\<rparr>" by blast
  from inv have ci: "creds_inv s" and nrm: "normalized w (uopts s)" by (simp_all add: ustate_inv_def)
  from handle_step_ok [OF ci nrm h] have "ucreds t' = ucreds s \<or> creds_pending s"
    and ci': "creds_inv t'" by (simp_all add: step_ok_def)
  with ci have uc: "ucreds s \<noteq> JUndef \<longrightarrow> ucreds t' = ucreds s" by (auto simp: creds_inv_def)
  have pp: "post_pending t' \<longrightarrow> post_pending s \<or> i = Uploaded"
    using handle_post_pending [OF h] by simp
  have up: "i = Uploaded \<Longrightarrow> ucreds t' \<noteq> JUndef"
    using h ci uc by (auto simp: handle_def creds_inv_def split: if_splits)
  show ?thesis using si uc pp up
    by (auto simp: stage_inv_def uploaded_seen_def t)
qed

lemma reachable_stage_inv: "reachable w s \<Longrightarrow> stage_inv s"
proof (induction rule: reachable.induct)
  case (call oo s)
  then show ?case by (auto simp: stage_inv_def uploaded_seen_def init_state_def dest!: upload_Inr)
next
  case (step s i t)
  then show ?case by (blast intro: step_stage_inv reachable_inv)
qed

lemma events_step:
  "t = t'\<lparr>outbox := [], trace := trace s @ [(Input i, outs)]\<rparr> \<Longrightarrow>
   events t = events s @ [e. Emit e \<leftarrow> outs]"
  by (simp add: events_def)

lemma finished_in_outs:
  "list_ex is_finished_ev [e. Emit e \<leftarrow> outs] \<Longrightarrow> \<exists>b. Emit (Finished b) \<in> set outs"
proof (induction outs)
  case (Cons a outs)
  then show ?case by (cases a) (auto elim: is_finished_ev.elims)
qed simp

lemma creds_response_good:
  "creds_ok c \<Longrightarrow> creds_response (Inr (200, Some c)) = CbOk c"
  by (cases c) (auto simp: creds_ok_def creds_response_def prop_of_def)

lemma upload_stage: "upload w oo = Inr s \<Longrightarrow> stage_of s = Validated"
  by (auto simp: stage_of_def events_def uploaded_seen_def init_state_def dest!: upload_Inr)

text \<open>The handlers a successful upload runs through, unfolded for symbolic runs.\<close>

lemmas happy_path_simps = run.simps step_def handle_def on_creds_def putfile_ok putfile_source_def
  start_upload_def on_mpu_ready_def on_uploaded_def create_upload_ok on_post_eq finalize_response_def
  Let_def prog_set_length_def init_state_def stage_of_def events_def uploaded_seen_def creds_ok_def

section \<open>Refinement of the stage machine\<close>

text \<open>
  C17: the event loop refines the specification's stage machine up to stuttering: in
  every reachable state whose stage is not terminal, each step of the model either
  leaves the stage unchanged or is one step of the stage machine (the call itself ends
  in \<^verbatim>\<open>Validated\<close>, lemma \<open>upload_stage\<close>). Stages are never skipped: storage
  is reported only after credentials, and \<^verbatim>\<open>'finished'\<close> only after storage.
\<close>

theorem stages_simulation:
  assumes r: "reachable w s" and st: "step w s i = Some t" and nt: "\<not> terminal (stage_of s)"
  shows "stage_of t = stage_of s \<or> stage_step (stage_of s) (stage_of t)"
proof -
  from step_trace [OF st] obtain t' where h: "handle w i (s\<lparr>outbox := []\<rparr>) = Some t'"
    and cr: "crashed s = None"
    and t: "t = t'\<lparr>outbox := [], trace := trace s @ [(Input i, outbox t')]\<rparr>" by blast
  from reachable_inv [OF r] have ci: "creds_inv s" and nrm: "normalized w (uopts s)"
    by (simp_all add: ustate_inv_def)
  from reachable_stage_inv [OF r] have si: "stage_inv s" .
  from handle_step_ok [OF ci nrm h] have "ucreds t' = ucreds s \<or> creds_pending s"
    and rok: "reaction_ok (uopts s) (ucreds t') (creds_pending t') (Input i, outbox t')"
    by (simp_all add: step_ok_def)
  with ci have uc: "ucreds s \<noteq> JUndef \<longrightarrow> ucreds t' = ucreds s" by (auto simp: creds_inv_def)
  have ev: "events t = events s @ [e. Emit e \<leftarrow> outbox t']" using t by (rule events_step)
  have fin: "uploaded_seen s" if "list_ex is_finished_ev [e. Emit e \<leftarrow> outbox t']"
  proof -
    from finished_in_outs [OF that] obtain b where "Emit (Finished b) \<in> set (outbox t')" by blast
    with rok have "i = PostResp (Inr (201, b))" by (auto simp: reaction_ok_def list_all_iff)
    with h have "post_pending s" by (simp add: handle_def split: if_splits)
    with si show ?thesis by (simp add: stage_inv_def)
  qed
  have upl: "ucreds s \<noteq> JUndef" if "i = Uploaded"
    using h ci that by (auto simp: handle_def creds_inv_def split: if_splits)
  have fe: "list_ex is_finished_ev (events t) \<longleftrightarrow>
      list_ex is_finished_ev (events s) \<or> list_ex is_finished_ev [e. Emit e \<leftarrow> outbox t']"
    and ee: "list_ex is_error_ev (events t) \<or> crashed t \<noteq> None \<longleftrightarrow>
      list_ex is_error_ev (events s) \<or> list_ex is_error_ev [e. Emit e \<leftarrow> outbox t'] \<or> crashed t' \<noteq> None"
    unfolding ev by (simp_all add: t)
  have ue: "uploaded_seen t \<longleftrightarrow> uploaded_seen s \<or> i = Uploaded"
    by (auto simp: uploaded_seen_def t)
  have ce: "ucreds t = ucreds t'" by (simp add: t)
  have si2: "uploaded_seen s \<longrightarrow> ucreds s \<noteq> JUndef" using si by (simp add: stage_inv_def)
  show ?thesis
    unfolding stage_of_def fe ee ue ce
    using nt cr fin upl si2 uc
    by (auto simp: stage_of_def terminal_def stage_step_simps split: if_splits)
qed

definition ex_start :: ustate where
  "ex_start = (case upload ex_world (Some example_opts) of Inr s \<Rightarrow> s | Inl _ \<Rightarrow> init_state empty_opts)"

lemma ex_start_call: "upload ex_world (Some example_opts) = Inr ex_start"
  by code_simp

definition ex_acquired :: ustate where
  "ex_acquired = (case step ex_world ex_start (CredsResp (Inr (200, Some ex_creds))) of
      Some t \<Rightarrow> t | None \<Rightarrow> ex_start)"

theorem stages_simulation_witness:
  "\<exists>t. step ex_world ex_start (CredsResp (Inr (200, Some ex_creds))) = Some t \<and>
       stage_of ex_start = Validated \<and> stage_step Validated (stage_of t) \<and>
       stage_of t = CredentialsAcquired"
proof -
  have r: "reachable ex_world ex_start" using ex_start_call by (rule reachable.call)
  obtain t where st: "step ex_world ex_start (CredsResp (Inr (200, Some ex_creds))) = Some t"
    and c: "stage_of t = CredentialsAcquired"
  proof
    show "step ex_world ex_start (CredsResp (Inr (200, Some ex_creds))) = Some ex_acquired"
      by code_simp
    show "stage_of ex_acquired = CredentialsAcquired" by code_simp
  qed
  have v: "stage_of ex_start = Validated" using ex_start_call by (rule upload_stage)
  from stages_simulation [OF r st] v c have "stage_step Validated (stage_of t)"
    by (simp add: terminal_def)
  with st v c show ?thesis by blast
qed

section \<open>Liveness\<close>

text \<open>
  C18: every upload the call accepts can complete: for a caller stream that is an
  emitter (a stream object), or a file
  \<^verbatim>\<open>fs.statSync\<close> can read, good credentials, storage success and a 201 drive it to
  \<^verbatim>\<open>Finalized\<close>, with one \<^verbatim>\<open>'finished'\<close> event carrying the job descriptor and no
  other event. Each of these inputs is enabled when it comes.
\<close>

theorem accepted_upload_can_finish:
  assumes u: "upload w oo = Inr s" and c: "creds_ok c"
    and src: "is_emitter (stream (uopts s)) \<or>
              (\<not> truthy (stream (uopts s)) \<and> (\<exists>p n. file_opt (uopts s) = JStr p \<and> fs_size w p = Some n))"
  shows "\<exists>t. run w s [CredsResp (Inr (200, Some c)), MpuReady None, Uploaded, PostResp (Inr (201, b))]
             = Some t \<and> stage_of t = Finalized \<and> events t = [Finished b]"
proof -
  from upload_Inr [OF u] obtain o1 r where o1: "upload_opts (env_proxy w) oo = Inr o1"
    and s: "s = (init_state (opts_defaults (env_proxy w) oo))
                 \<lparr>uopts := o1, creds_pending := True, trace := [(Call, [Get r])]\<rparr>" by blast
  from upload_opts_Inr_normal [OF o1] have n: "normalized w o1" by (simp add: normalized_def)
  have ok: "creds_response (Inr (200, Some c)) = CbOk c" using c by (rule creds_response_good)
  from src s consider "is_emitter (stream o1)" | p n where "\<not> truthy (stream o1)" "file_opt o1 = JStr p" "fs_size w p = Some n"
    by auto
  then show ?thesis
  proof cases
    case 1
    then show ?thesis using n c ok
      by (simp add: s happy_path_simps)
  next
    case 2
    with n have "p \<noteq> []" by (simp add: normalized_def valid_opts_def)
    with 2 show ?thesis using n c ok
      by (simp add: s happy_path_simps)
  qed
qed

theorem accepted_upload_can_finish_witness:
  "\<exists>t. run ex_world ex_start [CredsResp (Inr (200, Some ex_creds)), MpuReady None, Uploaded,
        PostResp (Inr (201, ex_job))] = Some t \<and> stage_of t = Finalized \<and> events t = [Finished ex_job]"
proof -
  have src: "\<not> truthy (stream (uopts ex_start))" "file_opt (uopts ex_start) = JStr ''data.mbtiles''"
    "fs_size ex_world ''data.mbtiles'' = Some 1000"
    and c: "creds_ok ex_creds" by code_simp+
  from accepted_upload_can_finish [OF ex_start_call c, of ex_job] src show ?thesis by blast
qed

end
