(* ===== verification/Listeners.thy ===== *)
theory Listeners
  imports Upload
begin

text \<open>
  The callback registry of one upload. The flags of
  \<open>ustate\<close> say which callbacks \<^verbatim>\<open>src/index.js\<close> has registered with its libraries:
  the credentials request's callback (\<^verbatim>\<open>getcreds\<close>), the uploader's callback, the
  \<^verbatim>\<open>'progress'\<close> listener, the read stream's \<^verbatim>\<open>'error'\<close> listener and the source's
  \<^verbatim>\<open>'length'\<close> listener (\<^verbatim>\<open>putfile\<close>), the upload stream's listeners and the pipe
  (the uploader's callback), and the source \<^verbatim>\<open>st\<close> they capture.
  \<open>wf_ustate\<close> is the well-formedness of that registry: which flags go together, and
  which source kind each listener belongs to. The theorems: every reachable state is
  well-formed; and a failed credential fetch leaves nothing registered, so the upload
  halts there.
\<close>

section \<open>Well-formedness of the callback registry\<close>

text \<open>
  The upload stream's listeners are installed just before the pipe (lines 123--132),
  which is missing only when the source has no \<^verbatim>\<open>pipe\<close> method and line 132 threw;
  the source is resolved before the \<^verbatim>\<open>'progress'\<close> listener is registered, and that
  listener before the uploader is started (lines 87--119); the uploader's callback runs before its listeners exist; nothing of
  \<^verbatim>\<open>putfile\<close> is registered while credentials are awaited; the read stream's
  \<^verbatim>\<open>'error'\<close> listener exists only for a file given as a string, the \<^verbatim>\<open>'length'\<close>
  listener only for a caller stream (lines 87--101).
\<close>

definition wf_ustate :: "ustate \<Rightarrow> bool" where
  "wf_ustate s \<longleftrightarrow>
     (piping s \<longrightarrow> upload_listeners s) \<and>
     (upload_listeners s \<longrightarrow> piping s \<or> \<not> pipeable (usource s)) \<and>
     (progress_listener s \<longrightarrow> usource s \<noteq> NoSource) \<and>
     (mpu_pending s \<or> upload_listeners s \<longrightarrow> progress_listener s) \<and>
     (mpu_pending s \<longrightarrow> \<not> upload_listeners s) \<and>
     (creds_pending s \<longrightarrow> \<not> progress_listener s \<and> \<not> read_listener s \<and> \<not> length_listener s) \<and>
     (read_listener s \<longrightarrow> \<not> truthy (stream (uopts s)) \<and> is_string (file_opt (uopts s))) \<and>
     (length_listener s \<longrightarrow> truthy (stream (uopts s)))"

definition registry :: "ustate \<Rightarrow> bool \<times> bool \<times> bool \<times> bool \<times> bool \<times> bool \<times> bool \<times> opts \<times> source" where
  "registry s = (piping s, upload_listeners s, mpu_pending s, progress_listener s, creds_pending s,
                 read_listener s, length_listener s, uopts s, usource s)"

lemma wf_registry: "registry t = registry s \<Longrightarrow> wf_ustate t = wf_ustate s"
  by (simp add: registry_def wf_ustate_def)

lemma handle_registry:
  assumes "handle w i s = Some t" and "\<forall>r. i \<noteq> CredsResp r" and "\<forall>m. i \<noteq> MpuReady m" and "i \<noteq> Uploaded"
  shows "registry t = registry s"
  using assms
  by (cases i) (auto simp: handle_def registry_def on_post_eq prog_set_length_def on_read_error_def
      prog_chunk_def prog_tick_def on_progress_def on_upload_error_def split: if_splits cb_result.splits)
lemma putfile_source_wf:
  assumes "wf_ustate s" "\<not> progress_listener s" "\<not> read_listener s" "\<not> length_listener s"
    "\<not> mpu_pending s" "\<not> upload_listeners s" "\<not> creds_pending s" "uopts s = o1"
  shows "wf_ustate (putfile_source w o1 c s)"
  using assms
  by (auto simp: wf_ustate_def putfile_source_def start_upload_def prog_set_length_def Let_def
      split: option.splits jsval.splits)

lemma registry_emit_error [simp]: "registry (emit_error e s) = registry s"
  by (simp add: registry_def)

lemma registry_throw_err [simp]: "registry (throw_err e s) = registry s"
  by (simp add: registry_def throw_err_def)

lemma wf_creds_done: "wf_ustate s \<Longrightarrow> wf_ustate (s\<lparr>creds_pending := False\<rparr>)"
  by (simp add: wf_ustate_def)

lemma wf_mpu_ready:
  assumes "wf_ustate s" and "mpu_pending s"
  shows "wf_ustate (on_mpu_ready m (s\<lparr>mpu_pending := False\<rparr>))"
proof (cases m)
  case None
  from assms have "progress_listener s" "creds_pending s \<longrightarrow> \<not> progress_listener s"
    unfolding wf_ustate_def by blast+
  then have "\<not> creds_pending s" by blast
  with assms None show ?thesis by (simp add: on_mpu_ready_def wf_ustate_def Let_def)
next
  case (Some n)
  from assms have "wf_ustate (s\<lparr>mpu_pending := False\<rparr>)" unfolding wf_ustate_def by auto
  moreover have "registry (on_mpu_ready m (s\<lparr>mpu_pending := False\<rparr>)) = registry (s\<lparr>mpu_pending := False\<rparr>)"
    using Some by (simp add: on_mpu_ready_def)
  ultimately show ?thesis using wf_registry by blast
qed

lemma handle_wf:
  assumes wf: "wf_ustate s" and ci: "creds_inv s" and nrm: "normalized w (uopts s)"
    and h: "handle w i s = Some t"
  shows "wf_ustate t"
proof (cases "(\<exists>r. i = CredsResp r) \<or> (\<exists>m. i = MpuReady m) \<or> i = Uploaded")
  case False
  with h have "registry t = registry s" by (auto intro: handle_registry)
  with wf wf_registry show ?thesis by blast
next
  case True
  then consider r where "i = CredsResp r" | m where "i = MpuReady m" | "i = Uploaded" by blast
  then show ?thesis
  proof cases
    case 1
    with h have cp: "creds_pending s" and t: "t = on_creds w r (s\<lparr>creds_pending := False\<rparr>)"
      by (auto simp: handle_def split: if_splits)
    have wf0: "wf_ustate (s\<lparr>creds_pending := False\<rparr>)" using wf by (rule wf_creds_done)
    show ?thesis
    proof (cases "creds_response r")
      case (CbOk c)
      from cp ci have "\<not> mpu_pending s" "\<not> upload_listeners s"
        by (simp_all add: creds_inv_def)
      moreover from cp wf have "\<not> progress_listener s" "\<not> read_listener s" "\<not> length_listener s"
        by (simp_all add: wf_ustate_def)
      moreover from CbOk creds_response_ok have "creds_ok c" by blast
      ultimately show ?thesis using CbOk nrm wf0
        by (simp add: t on_creds_def putfile_ok putfile_source_wf)
    next
      case (CbError e)
      then have "registry t = registry (s\<lparr>creds_pending := False\<rparr>)" by (simp add: t on_creds_def)
      with wf0 wf_registry show ?thesis by blast
    next
      case (CbThrow e)
      then have "registry t = registry (s\<lparr>creds_pending := False\<rparr>)" by (simp add: t on_creds_def)
      with wf0 wf_registry show ?thesis by blast
    qed
  next
    case 2
    with h wf show ?thesis by (auto simp: handle_def wf_mpu_ready split: if_splits)
  next
    case 3
    with h have ul: "upload_listeners s" and t: "t = on_uploaded w s"
      by (auto simp: handle_def split: if_splits)
    from ci have "ucreds s = JUndef \<or> creds_ok (ucreds s)"
      and "mpu_pending s \<or> upload_listeners s \<longrightarrow> ucreds s \<noteq> JUndef" by (simp_all add: creds_inv_def)
    with ul have "creds_ok (ucreds s)" by blast
    with t nrm have "t = (send (Post (post_request (uopts s) (ucreds s))) s)\<lparr>post_pending := True\<rparr>"
      by (simp add: on_uploaded_def create_upload_ok)
    then have "registry t = registry s" by (simp add: registry_def)
    with wf wf_registry show ?thesis by blast
  qed
qed

text \<open>
  C19: every reachable state is well-formed: the callbacks registered at any moment
  form one of the configurations the code can build, and each source listener matches
  the kind of source the options name.
\<close>

theorem reachable_well_formed: "reachable w s \<Longrightarrow> wf_ustate s"
proof (induction rule: reachable.induct)
  case (call oo s)
  then show ?case by (auto simp: wf_ustate_def init_state_def dest!: upload_Inr)
next
  case (step s i t)
  from step_Some [OF step.hyps(2)] obtain t' where h: "handle w i (s\<lparr>outbox := []\<rparr>) = Some t'"
    and t: "t = t'\<lparr>outbox := [], trace := trace s @ [(Input i, outbox t')]\<rparr>" by blast
  from reachable_inv [OF step.hyps(1)] have ci: "creds_inv (s\<lparr>outbox := []\<rparr>)"
    and nrm: "normalized w (uopts (s\<lparr>outbox := []\<rparr>))" by (simp_all add: ustate_inv_def creds_inv_def)
  have "registry (s\<lparr>outbox := []\<rparr>) = registry s" by (simp add: registry_def)
  with step.IH wf_registry have wf: "wf_ustate (s\<lparr>outbox := []\<rparr>)" by blast
  have "wf_ustate t'" using wf ci nrm h by (rule handle_wf)
  moreover have "registry t = registry t'" by (simp add: t registry_def)
  ultimately show ?case using wf_registry by blast
qed
theorem reachable_well_formed_witness:
  "wf_ustate ex_state \<and> piping ex_state \<and> upload_listeners ex_state \<and> read_listener ex_state"
proof -
  have "piping ex_state" "upload_listeners ex_state" "read_listener ex_state" by code_simp+
  with reachable_well_formed [OF ex_reachable] show ?thesis by blast
qed

section \<open>A failed credential fetch halts the upload\<close>

text \<open>
  The credentials callback runs once; when it does not hand credentials on (an error
  event or an exception), nothing of \<^verbatim>\<open>putfile\<close> or \<^verbatim>\<open>createUpload\<close> is ever
  registered, so no later callback can run.
\<close>

fun is_cb_ok :: "'a cb_result \<Rightarrow> bool" where
  "is_cb_ok (CbOk _) = True"
| "is_cb_ok _ = False"

definition creds_failed :: "ustate \<Rightarrow> bool" where
  "creds_failed s \<longleftrightarrow>
     list_ex (\<lambda>x. case fst x of Input (CredsResp r) \<Rightarrow> \<not> is_cb_ok (creds_response r) | _ \<Rightarrow> False) (trace s)"

definition halted :: "ustate \<Rightarrow> bool" where
  "halted s \<longleftrightarrow> \<not> creds_pending s \<and> \<not> mpu_pending s \<and> \<not> upload_listeners s \<and> \<not> piping s \<and>
     \<not> read_listener s \<and> \<not> length_listener s \<and> \<not> post_pending s"

lemma halted_step:
  "halted s \<Longrightarrow> handle w i s = Some t \<Longrightarrow> i = AttachErrorListener \<and> t = s\<lparr>err_listener := True\<rparr>"
  by (cases i) (auto simp: halted_def handle_def split: if_splits)

lemma creds_failed_halts:
  assumes r: "reachable w s"
  shows "creds_failed s \<longrightarrow> halted s"
  using r
proof (induction rule: reachable.induct)
  case (call oo s)
  then show ?case by (auto simp: creds_failed_def dest!: upload_Inr)
next
  case (step s i t)
  from step_Some [OF step.hyps(2)] obtain t' where h: "handle w i (s\<lparr>outbox := []\<rparr>) = Some t'"
    and t: "t = t'\<lparr>outbox := [], trace := trace s @ [(Input i, outbox t')]\<rparr>" by blast
  have cf: "creds_failed t \<longleftrightarrow> creds_failed s \<or> (\<exists>r. i = CredsResp r \<and> \<not> is_cb_ok (creds_response r))"
    by (auto simp: creds_failed_def t split: trigger.splits input.splits)
  have ht: "halted t = halted t'" by (simp add: t halted_def)
  show ?case
  proof
    assume "creds_failed t"
    with cf consider "creds_failed s" | r where "i = CredsResp r" "\<not> is_cb_ok (creds_response r)" by blast
    then show "halted t"
    proof cases
      case 1
      with step.IH have "halted (s\<lparr>outbox := []\<rparr>)" by (simp add: halted_def)
      from halted_step [OF this h] have "t' = s\<lparr>outbox := [], err_listener := True\<rparr>" by simp
      with 1 step.IH ht show ?thesis by (simp add: halted_def)
    next
      case 2
      with h have cp: "creds_pending s" and t': "t' = on_creds w r (s\<lparr>outbox := [], creds_pending := False\<rparr>)"
        by (auto simp: handle_def split: if_splits)
      from reachable_inv [OF step.hyps(1)] have ci: "creds_inv s" by (simp add: ustate_inv_def)
      from cp ci have "\<not> mpu_pending s" "\<not> upload_listeners s" "\<not> post_pending s"
        by (simp_all add: creds_inv_def)
      moreover from reachable_well_formed [OF step.hyps(1)] cp
      have "\<not> read_listener s" "\<not> length_listener s" "piping s \<longrightarrow> upload_listeners s"
        by (simp_all add: wf_ustate_def)
      moreover from 2(2) have "registry t' = registry (s\<lparr>outbox := [], creds_pending := False\<rparr>)"
        by (cases "creds_response r") (simp_all add: t' on_creds_def)
      moreover from 2(2) have "post_pending t' = post_pending s"
        by (cases "creds_response r") (simp_all add: t' on_creds_def throw_err_def)
      ultimately show ?thesis using ht by (simp add: halted_def registry_def)
    qed
  qed
qed

text \<open>
  C20: no upload after a failed credential fetch. In every reachable state whose trace
  holds a credentials response that was not accepted (a transport error, a parse error,
  a non-200 status, a body without key or bucket, or a throwing body), the only input
  still enabled is the caller attaching an \<^verbatim>\<open>'error'\<close> listener: no storage upload, no
  registration and no further event can follow.
\<close>

theorem creds_failure_halts:
  assumes "reachable w s" and "(Input (CredsResp r), outs) \<in> set (trace s)"
    and "\<not> is_cb_ok (creds_response r)"
  shows "step w s i = None \<or> i = AttachErrorListener"
proof -
  from assms(2,3) have "creds_failed s" by (force simp: creds_failed_def list_ex_iff)
  with creds_failed_halts [OF assms(1)] have "halted (s\<lparr>outbox := []\<rparr>)" by (simp add: halted_def)
  then show ?thesis by (auto simp: step_def dest: halted_step split: option.splits)
qed
definition ex_creds_failed :: ustate where
  "ex_creds_failed = (case run_from_call ex_world (Some example_opts)
      [AttachErrorListener, CredsResp (Inr (403, Some (JObj [(''message'', JStr ''forbidden'')])))] of
      Some t \<Rightarrow> t | None \<Rightarrow> init_state empty_opts)"

theorem creds_failure_halts_witness:
  "step ex_world ex_creds_failed (MpuReady None) = None \<and> step ex_world ex_creds_failed Uploaded = None \<and>
   step ex_world ex_creds_failed (CredsResp (Inr (200, Some ex_creds))) = None"
proof -
  have run: "run_from_call ex_world (Some example_opts)
      [AttachErrorListener, CredsResp (Inr (403, Some (JObj [(''message'', JStr ''forbidden'')])))] =
      Some ex_creds_failed" by code_simp
  have m: "(Input (CredsResp (Inr (403, Some (JObj [(''message'', JStr ''forbidden'')])))),
      [Emit (ErrorEv (Error ''forbidden'' (Some 403)))]) \<in> set (trace ex_creds_failed)" by code_simp
  have f: "\<not> is_cb_ok (creds_response (Inr (403, Some (JObj [(''message'', JStr ''forbidden'')]))))"
    by code_simp
  note h = creds_failure_halts [OF run_from_call_reachable [OF run] m f]
  from h [of "MpuReady None"] h [of Uploaded] h [of "CredsResp (Inr (200, Some ex_creds))"] show ?thesis
    by simp
qed

end
