(* ===== verification/Aliasing.thy ===== *)
theory Aliasing
  imports Upload
begin

text \<open>
  The options object the pipeline holds is the caller's own. \<^verbatim>\<open>upload.opts\<close> returns
  the object it was given (line 44), \<^verbatim>\<open>upload\<close> passes that reference to
  \<^verbatim>\<open>getcreds\<close> and to the closure that calls \<^verbatim>\<open>putfile\<close> (lines 19--25), and
  \<^verbatim>\<open>putfile\<close>'s \<^verbatim>\<open>'uploaded'\<close> listener passes it to \<^verbatim>\<open>createUpload\<close>
  (lines 128--130). Each of these re-validates it with \<^verbatim>\<open>opts = upload.opts(opts)\<close>
  (lines 79 and 137), reading the object as it is when the callback runs and writing the
  defaults back into it. This theory runs the event loop over the caller's store of
  options objects (\<open>opts_store\<close> of \<open>Options\<close>), with one more input, the caller
  editing its object. The byte source \<^verbatim>\<open>st\<close> is a local of \<^verbatim>\<open>putfile\<close> (line 89),
  kept in \<open>usource\<close>, so an edit of \<^verbatim>\<open>opts.stream\<close> does not reach the pipe. The
  theorem: an edit between the call and \<^verbatim>\<open>'uploaded'\<close> changes what is registered.
\<close>

section \<open>The event loop over the caller's store\<close>

text \<open>
  The caller's store, the address of the object the pipeline holds (\<open>None\<close>: the caller
  passed none, and \<^verbatim>\<open>opts || {}\<close> made an object only the pipeline knows), and the
  state of the upload.
\<close>

record astate =
  heap :: opts_store
  oref :: "nat option"
  ust :: ustate

datatype ainput = Lib input | CallerEdit opts

text \<open>
  The callbacks that run \<^verbatim>\<open>upload.opts\<close> on the held object: the credentials callback
  when \<^verbatim>\<open>getcreds\<close> hands credentials on (\<^verbatim>\<open>putfile\<close>, line 79), and
  \<^verbatim>\<open>'uploaded'\<close> (\<^verbatim>\<open>createUpload\<close>, line 137).
\<close>

fun revalidates :: "input \<Rightarrow> bool" where
  "revalidates (CredsResp r) = (case creds_response r of CbOk _ \<Rightarrow> True | _ \<Rightarrow> False)"
| "revalidates Uploaded = True"
| "revalidates _ = False"

text \<open>
  A library input runs its callback on the object as it is now; a callback that
  re-validates writes the defaults into it. The caller can assign its object at any time.
\<close>

definition astep :: "world \<Rightarrow> astate \<Rightarrow> ainput \<Rightarrow> astate option" where
  "astep w a x =
     (case x of
        CallerEdit o' \<Rightarrow>
          (case oref a of Some r \<Rightarrow> Some (a\<lparr>heap := (heap a)(r := o')\<rparr>) | None \<Rightarrow> None)
      | Lib i \<Rightarrow>
          (let cur = (case oref a of Some r \<Rightarrow> heap a r | None \<Rightarrow> uopts (ust a))
           in case step w ((ust a)\<lparr>uopts := cur\<rparr>) i of
                None \<Rightarrow> None
              | Some t \<Rightarrow>
                  Some \<lparr>heap = (case oref a of
                                  Some r \<Rightarrow> if revalidates i
                                            then (heap a)(r := opts_defaults (env_proxy w) (Some cur))
                                            else heap a
                                | None \<Rightarrow> heap a),
                        oref = oref a, ust = t\<rparr>))"

fun arun :: "world \<Rightarrow> astate \<Rightarrow> ainput list \<Rightarrow> astate option" where
  "arun w a [] = Some a"
| "arun w a (x # xs) = (case astep w a x of None \<Rightarrow> None | Some b \<Rightarrow> arun w b xs)"

text \<open>\<^verbatim>\<open>upload(opts)\<close> on the object at \<open>r\<close>: validation writes the defaults into it.\<close>

definition acall :: "world \<Rightarrow> opts_store \<Rightarrow> nat option \<Rightarrow> error + astate" where
  "acall w h r =
     (case upload w (map_option h r) of
        Inl e \<Rightarrow> Inl e
      | Inr s \<Rightarrow> Inr \<lparr>heap = fst (opts_call (env_proxy w) h r), oref = r, ust = s\<rparr>)"

section \<open>A caller edit between the call and the registration\<close>

definition ex_call_state :: ustate where
  "ex_call_state = (case upload ex_world (Some example_opts) of Inr s \<Rightarrow> s | Inl _ \<Rightarrow> init_state empty_opts)"

definition ex_alias_start :: astate where
  "ex_alias_start = \<lparr>heap = fst (opts_call (env_proxy ex_world) (\<lambda>_. example_opts) (Some 0)),
     oref = Some 0, ust = ex_call_state\<rparr>"

lemma ex_alias_call: "acall ex_world (\<lambda>_. example_opts) (Some 0) = Inr ex_alias_start"
proof -
  have "upload ex_world (Some example_opts) = Inr ex_call_state" by code_simp
  then show ?thesis by (simp add: acall_def ex_alias_start_def)
qed

definition ex_edit_inputs :: "string \<Rightarrow> ainput list" where
  "ex_edit_inputs m = [Lib AttachErrorListener, Lib (CredsResp (Inr (200, Some ex_creds))), Lib (MpuReady None),
     CallerEdit (example_opts\<lparr>mapid := JStr m\<rparr>), Lib Uploaded]"

text \<open>
  C23: the request is not immutable after validation. In the run of scenario 1, if the
  caller assigns a new map id to its options object after the multipart upload has
  started, the \<^verbatim>\<open>'uploaded'\<close> listener re-validates the edited object: a map id of the
  same account is registered in place of the validated one, and a map id of another
  account makes \<^verbatim>\<open>'uploaded'\<close> emit the validation error instead of registering.
\<close>

theorem caller_edit_changes_registration:
  "map_option (\<lambda>a. snd (last (trace (ust a)))) (arun ex_world ex_alias_start (ex_edit_inputs ''acme.renamed'')) =
     Some [Post (ex_post\<lparr>preq_json := JObj [(''id'', JStr ''acme.renamed''),
       (''url'', JStr ''http://b1.s3.amazonaws.com/k1''), (''data'', JStr ''acme.renamed'')]\<rparr>)] \<and>
   map_option (\<lambda>a. snd (last (trace (ust a)))) (arun ex_world ex_alias_start (ex_edit_inputs ''other.tileset'')) =
     Some [Emit (ErrorEv (Error ''Invalid mapid \"other.tileset\" for account \"acme\"'' None))]"
proof
  show "map_option (\<lambda>a. snd (last (trace (ust a)))) (arun ex_world ex_alias_start (ex_edit_inputs ''acme.renamed'')) =
     Some [Post (ex_post\<lparr>preq_json := JObj [(''id'', JStr ''acme.renamed''),
       (''url'', JStr ''http://b1.s3.amazonaws.com/k1''), (''data'', JStr ''acme.renamed'')]\<rparr>)]"
    by code_simp
  show "map_option (\<lambda>a. snd (last (trace (ust a)))) (arun ex_world ex_alias_start (ex_edit_inputs ''other.tileset'')) =
     Some [Emit (ErrorEv (Error ''Invalid mapid \"other.tileset\" for account \"acme\"'' None))]"
    by code_simp
qed
end
