(* ===== verification/TestCreds.thy ===== *)
theory TestCreds
  imports Creds Finalize
begin

text \<open>
  The test-credential generator \<^verbatim>\<open>upload.testcreds\<close> (\<^verbatim>\<open>src/index.js\<close>, lines
  172--188): it reads the AWS variables of the environment and hands its callback
  either an error or a credentials object for the testing bucket, under a fresh random
  key. The MD5 digest of a random number is a parameter (its hex string). The theorems:
  the credentials it produces pass every credential check of the pipeline (the
  response handler of the fetcher and the guard of the upload engine and finalizer), and
  the object lands under the prefix the bucket's lifecycle rule cleans.
\<close>

record aws_env =
  aws_access_key_id :: jsval
  aws_secret_access_key :: jsval
  aws_session_token :: jsval

definition msg_no_key_id :: string where
  "msg_no_key_id = ''env var AWS_ACCESS_KEY_ID required''"

definition msg_no_secret :: string where
  "msg_no_secret = ''env var AWS_SECRET_ACCESS_KEY required''"

definition test_bucket :: string where
  "test_bucket = ''mapbox-upload-testing''"

definition test_prefix :: string where
  "test_prefix = ''_pending/test/''"

text \<open>
  The value passed to \<^verbatim>\<open>callback\<close>: \<open>Inl\<close> the error of \<^verbatim>\<open>callback(new Error(...))\<close>,
  \<open>Inr\<close> the object of \<^verbatim>\<open>callback(null, {...})\<close>. \<^verbatim>\<open>new AWS.STS(...)\<close> is built and
  never used, so it has no effect here.
\<close>

definition testcreds :: "aws_env \<Rightarrow> string \<Rightarrow> error + jsval" where
  "testcreds env md5 =
     (let key = test_prefix @ md5 in
      if \<not> truthy (aws_access_key_id env) then Inl (Error msg_no_key_id None)
      else if \<not> truthy (aws_secret_access_key env) then Inl (Error msg_no_secret None)
      else Inr (JObj [(''bucket'', JStr test_bucket), (''key'', JStr key),
                      (''accessKeyId'', aws_access_key_id env),
                      (''secretAccessKey'', aws_secret_access_key env),
                      (''sessionToken'', aws_session_token env)]))"

lemma testcreds_Inr:
  "testcreds env md5 = Inr c \<Longrightarrow>
     prop_of c ''bucket'' = JStr test_bucket \<and> prop_of c ''key'' = JStr (test_prefix @ md5) \<and>
     c \<noteq> JNull \<and> c \<noteq> JUndef"
  by (auto simp: testcreds_def Let_def prop_of_def split: if_splits)

section \<open>Properties of the test credentials\<close>

text \<open>
  C14: test credentials are credentials the pipeline accepts: answered with status 200,
  the fetcher's handler hands them on unchanged, and the engine's and finalizer's
  \<^verbatim>\<open>key\<close>/\<^verbatim>\<open>bucket\<close> guard lets every continuation run. The object is stored in the
  testing bucket under \<^verbatim>\<open>_pending/test/\<close>, the prefix its lifecycle rule deletes.
\<close>

theorem testcreds_accepted:
  assumes "testcreds env md5 = Inr c"
  shows "creds_response (Inr (200, Some c)) = CbOk c \<and> creds_guard c s k = k s \<and>
         s3_url c = object_url test_bucket (test_prefix @ md5)"
proof -
  note t = testcreds_Inr [OF assms]
  have tb: "truthy (JStr test_bucket)" by (simp add: test_bucket_def)
  have tk: "truthy (JStr (test_prefix @ md5))" by (simp add: test_prefix_def)
  have g: "get_prop c ''key'' = Inr (prop_of c ''key'')"
    using t by (cases c) (simp_all add: prop_of_def)
  show ?thesis using t tb tk g by (simp add: creds_response_def s3_url_def)
qed

definition ex_aws_env :: aws_env where
  "ex_aws_env = \<lparr>aws_access_key_id = JStr ''AKIAEXAMPLE'', aws_secret_access_key = JStr ''secret'',
     aws_session_token = JUndef\<rparr>"

theorem testcreds_accepted_witness:
  "\<exists>c. testcreds ex_aws_env ''d41d8cd98f00b204e9800998ecf8427e'' = Inr c \<and>
     creds_response (Inr (200, Some c)) = CbOk c \<and>
     s3_url c = ''http://mapbox-upload-testing.s3.amazonaws.com/_pending/test/d41d8cd98f00b204e9800998ecf8427e''"
proof -
  obtain c where c: "testcreds ex_aws_env ''d41d8cd98f00b204e9800998ecf8427e'' = Inr c"
    by (simp add: testcreds_def ex_aws_env_def Let_def)
  from testcreds_accepted [OF c, of s k for s k] c show ?thesis
    by (simp add: object_url_def test_bucket_def test_prefix_def s3_host_suffix_def)
qed

end
