(* ===== verification/Spec2Isabelle.thy ===== *)
theory Spec2Isabelle
  imports Stages Listeners Aliasing TestCreds
begin

text \<open>
  A verification library for \<^verbatim>\<open>mapbox-upload\<close> (\<^verbatim>\<open>src/index.js\<close>, the whole program).
  The module turns a file or a stream into a hosted dataset. \<^verbatim>\<open>upload(opts)\<close> creates a
  progress stream \<^verbatim>\<open>prog\<close>, validates the options (\<^verbatim>\<open>upload.opts\<close>), fetches temporary
  S3 credentials from the hosting API (\<^verbatim>\<open>upload.getcreds\<close>), streams the bytes through
  \<^verbatim>\<open>prog\<close> into a multipart S3 upload (\<^verbatim>\<open>upload.putfile\<close>), and registers the stored
  object as an upload job (\<^verbatim>\<open>upload.createUpload\<close>). Every outcome is an event on
  \<^verbatim>\<open>prog\<close>: \<^verbatim>\<open>'stats'\<close> samples, \<^verbatim>\<open>'error'\<close> (through \<^verbatim>\<open>upload.error\<close>) and
  \<^verbatim>\<open>'finished'\<close>. The stages are chained by callbacks on Node's event loop.
  \<^verbatim>\<open>upload.testcreds\<close> builds credentials for tests.

  \<^bold>\<open>Theories and what they model.\<close>
  \<^item> \<open>Js_Prelude\<close>: the JavaScript runtime the module relies on. It has
    JSON-shaped values \<open>jsval\<close>, with \<open>JEmitter\<close> for an object that has the
    stream methods (\<open>is_emitter\<close>), and truthiness (\<open>truthy\<close>, \<open>js_or\<close>). Property access
    \<open>get_prop\<close> raises a \<^verbatim>\<open>TypeError\<close> on \<^verbatim>\<open>null\<close>/\<^verbatim>\<open>undefined\<close>. It also has
    \<^verbatim>\<open>String(x)\<close> (\<open>js_to_string\<close>, \<open>fmt_s\<close> for \<^verbatim>\<open>util.format('%s')\<close>),
    \<^verbatim>\<open>split('.')[0]\<close> (\<open>split_head\<close>) and the error values. These are not code of the
    repository; they are the semantics its lines have.
  \<^item> \<open>Options\<close>: \<^verbatim>\<open>upload.opts\<close> (lines 28--45). The \<^verbatim>\<open>opts\<close> object is a record.
    \<open>opts_defaults\<close> is the in-place normalisation, \<open>check_opts\<close> the five checks in
    source order, and \<open>upload_opts\<close> their composition; a thrown error is \<open>Inl\<close>.
    \<open>opts_call\<close> is the same call on the caller's object in an explicit store: the
    defaults are written into that object. A truthy primitive passed as \<open>opts\<close> is not
    modelled: the model's caller passes an object or nothing.
  \<^item> \<open>Channel\<close>: the state of one upload call and its outputs.
    \<^item> The record \<open>ustate\<close> holds the options, credentials and byte source
      (\<open>usource\<close>, the \<^verbatim>\<open>st\<close> of \<^verbatim>\<open>putfile\<close>) the closures capture,
      which library callbacks are registered, whether an \<^verbatim>\<open>'error'\<close> listener is
      attached, the progress counters, an uncaught exception (\<open>crashed\<close>), and the
      trace.
    \<^item> \<open>emit_error\<close> is \<^verbatim>\<open>upload.error\<close> (lines 47--49). With no listener Node throws,
      which is \<open>throw_err\<close>.
    \<^item> The progress-stream library (\<open>prog_chunk\<close>, \<open>prog_set_length\<close>,
      \<open>prog_tick\<close>) is modelled from the specification (sampling on a fixed
      wall-clock interval); no property rests on it.
  \<^item> \<open>Creds\<close>: \<^verbatim>\<open>upload.getcreds\<close> (lines 51--76). \<open>getcreds\<close> is the synchronous part
    that sends the request. \<open>creds_response\<close> is the request callback as a function from
    the HTTP answer to an error, an exception, or the credentials.
  \<^item> \<open>Finalize\<close>: \<^verbatim>\<open>upload.createUpload\<close> (lines 136--168).
    \<^item> \<open>revalidate\<close> and \<open>creds_guard\<close> are the guards it shares with \<^verbatim>\<open>putfile\<close>.
    \<^item> \<open>post_request\<close> is the POST with its JSON body, and \<open>object_url\<close> the
      public URL.
    \<^item> \<open>finalize_response\<close> and \<open>on_post_cb\<close> are the callback, with or without a
      caller's \<^verbatim>\<open>callback\<close>; \<open>on_post\<close> is the pipeline's instance, without one.
  \<^item> \<open>Putfile\<close>: \<^verbatim>\<open>upload.putfile\<close> (lines 78--134).
    \<^item> \<open>putfile_source\<close> resolves the source: the caller's \<^verbatim>\<open>stream\<close> value
      (\<^verbatim>\<open>st.on\<close> throws when it is not an emitter), or a file opened and measured
      with \<^verbatim>\<open>fs.statSync\<close>.
    \<^item> \<open>start_upload\<close> sets up the S3 client and the uploader (\<open>s3_request\<close>).
    \<^item> The callbacks it registers are \<open>on_mpu_ready\<close>, \<open>on_read_error\<close>,
      \<open>on_upload_error\<close> and \<open>on_uploaded\<close>.
  \<^item> \<open>Upload\<close>: \<^verbatim>\<open>upload(opts)\<close> (lines 16--27) and the event loop.
    \<^item> \<open>upload\<close> is the synchronous call; \<open>Inl\<close> is an exception thrown to the caller.
    \<^item> \<open>step w s i\<close> runs the callback that input \<open>i\<close> fires, one per event-loop turn.
      It is \<open>None\<close> when that callback is not registered or the process has crashed.
    \<^item> \<open>run\<close> folds \<open>step\<close> over a list of inputs, and \<open>reachable\<close> is the
      inductive set of states of all runs.
  \<^item> \<open>Stages\<close>: the specification's stage machine (\<open>stage\<close>, \<open>stage_step\<close>) and
    the abstraction \<open>stage_of\<close> that reads the current stage off a model state.
  \<^item> \<open>Listeners\<close>: the well-formedness \<open>wf_ustate\<close> of the registered callbacks,
    and what a failed credential fetch leaves registered.
  \<^item> \<open>Aliasing\<close>: the event loop over the caller's store of options objects
    (\<open>astep\<close>, \<open>arun\<close>, \<open>acall\<close>). The pipeline holds the caller's object by reference,
    each callback reads it when it runs, re-validation writes defaults into it, and the
    caller may edit it at any time (\<open>CallerEdit\<close>).
  \<^item> \<open>TestCreds\<close>: \<^verbatim>\<open>upload.testcreds\<close> (lines 172--189), with the random MD5
    digest as a parameter.
  \<^item> This theory: properties that involve several components, over all reachable
    states or all accepted calls.

  \<^bold>\<open>How the components interact.\<close> They meet in \<open>ustate\<close>. Each handler is a
  function \<open>ustate \<Rightarrow> ustate\<close> that may emit events, send requests (actions in the
  \<open>outbox\<close>), register callbacks (flags such as \<open>creds_pending\<close> or
  \<open>upload_listeners\<close>), or throw. \<open>step\<close> moves the outbox into the trace as one
  reaction \<open>(trigger, actions)\<close>. The environment is a \<open>world\<close>: \<^verbatim>\<open>HTTP_PROXY\<close> and
  what \<^verbatim>\<open>fs.statSync\<close> returns. The libraries' answers are the constructors of
  \<open>input\<close>, so every order in which they can arrive is a run.

  \<^bold>\<open>What the lemmas show.\<close>
  \<^item> Options: acceptance is exactly the contract predicate \<open>valid_opts\<close>, which
    gives the account namespace of the map id. It is looser than the specification's
    contract. Validation writes the defaults into the caller's object even when it
    rejects it, and an accepted call returns that object.
  \<^item> Creds and Finalize: the callbacks' result on each branch. The object URL
    decodes back to bucket and key.
  \<^item> Upload: \<open>ustate_inv\<close> holds in every reachable state, by rule induction over
    \<open>reachable\<close> with one lemma per input (\<open>step_ok_*\<close>). It keeps:
    \<^item> the options normalised and valid;
    \<^item> the credentials bookkeeping (\<open>creds_inv\<close>);
    \<^item> every reaction in the trace allowed (\<open>reaction_ok\<close>): a POST only on
      \<^verbatim>\<open>'uploaded'\<close>, the S3 upload only on good credentials, \<^verbatim>\<open>'finished'\<close> only on
      a 201;
    \<^item> the \<^verbatim>\<open>'stats'\<close> byte counts sorted and bounded.
  \<^item> Stages: the event loop refines the stage machine up to stuttering. From every
    reachable non-terminal state, a step keeps the stage or makes one allowed
    transition. Every accepted upload whose source is an emitter stream or a file
    \<^verbatim>\<open>fs.statSync\<close> can read can reach \<open>Finalized\<close> (liveness, by symbolic
    execution of the successful run).
  \<^item> Listeners:
    \<^item> every reachable state is well-formed;
    \<^item> after a failed credential fetch no input but attaching a listener is enabled.
  \<^item> Aliasing: an edit of the caller's object between the call and
    \<^verbatim>\<open>'uploaded'\<close> changes what is registered.
  \<^item> In every reachable state the requests have the URLs and the body the
    specification gives them; the base URL, account and map id are strings.
  \<^item> Validation failures are thrown to the caller, and so is the \<^verbatim>\<open>TypeError\<close> of
    \<^verbatim>\<open>url.parse\<close> on a non-string base URL.
  \<^item> Source-stream errors are never observed.
  \<^item> The root's properties show several gaps:
    \<^item> nothing prevents two terminal signals: an upload-stream error followed by
      \<^verbatim>\<open>'uploaded'\<close> still registers the job;
    \<^item> three malformed inputs kill the process instead of producing an event: a null
      credentials body, a missing file, and a \<^verbatim>\<open>stream\<close> option that is not a
      stream.
  \<^item> Witnesses evaluate concrete runs by \<open>code_simp\<close>.

  \<^bold>\<open>Bounds, fuel and termination.\<close> None are needed. The module has no loop of
  its own, so there is no termination property to prove. The only recursion in the
  model is structural (\<open>run\<close> on the input list, \<open>stats_of\<close> on a list) or
  well-founded on \<open>n div 10\<close> (\<open>nat_str\<close>). Its repetition is the event loop,
  modelled as a step function over an explicit input list, so every definition is total
  and executable. Byte counts and sizes are
  naturals: the progress library uses JavaScript numbers, exact far beyond any file
  size.

  \<^bold>\<open>Not modelled.\<close>
  \<^item> The bytes themselves: a chunk is its size.
  \<^item> The internals of the HTTP client, \<^verbatim>\<open>aws-sdk\<close> and \<^verbatim>\<open>s3-upload-stream\<close>.
    Their answers are inputs, with transport errors abstracted to a code.
  \<^item> \<^verbatim>\<open>JSON.parse\<close>, folded into the response: \<open>None\<close> when it throws.
  \<^item> \<^verbatim>\<open>url.parse\<close> beyond \<^verbatim>\<open>scheme://host\<close> URLs.
  \<^item> The caller's optional \<^verbatim>\<open>callback\<close> of \<^verbatim>\<open>putfile\<close>, which the pipeline never
    passes. \<^verbatim>\<open>putfile\<close> only hands it on to \<^verbatim>\<open>createUpload\<close>, whose use of it is
    \<open>on_post_cb\<close>.
  \<^item> The progress library's internals, which are not repository code. Its
    sampling is the \<open>Tick\<close> input, following the specification's fixed interval; the
    library itself samples inside \<^verbatim>\<open>write\<close> once the interval has passed and once at
    the end, and defaults the length to 0 where the model has \<^verbatim>\<open>undefined\<close>. Only its
    counter, \<^verbatim>\<open>setLength\<close> and the sampled \<^verbatim>\<open>'progress'\<close> event are modelled; its
    percentage, speed and ETA fields are left out. No property of this library is
    claimed.
  \<^item> \<^verbatim>\<open>upload.MAPBOX\<close> being reassigned by a caller: the model treats it as a
    constant. A caller editing its options object is modelled in \<open>Aliasing\<close> only;
    the invariants of \<open>Upload\<close>, \<open>Stages\<close> and \<open>Listeners\<close> are stated for runs
    without such edits, where the held object keeps its validated value.
  \<^item> Node's own \<^verbatim>\<open>'error'\<close> handler that \<^verbatim>\<open>pipe\<close> puts on its destination:
    an error emitted on \<^verbatim>\<open>prog\<close> unpipes the source, which the model does not do
    (\<open>piping\<close> stays set). No property rests on what flows after an error.
  \<^item> \<^verbatim>\<open>util.format('%s')\<close> of an object (\<^verbatim>\<open>util.inspect\<close> in current Node) is read as
    \<^verbatim>\<open>String(x)\<close>; it is exact for the string fields validation guarantees.
  \<^item> The specification's command-line front end, which has no code in the
    repository.
\<close>

section \<open>Cross-component properties\<close>

definition ex_storage_fail_inputs :: "input list" where
  "ex_storage_fail_inputs = [AttachErrorListener, CredsResp (Inr (200, Some ex_creds)), MpuReady None,
     Chunk 300, Tick, UploadError (Some ''ECONNRESET'')]"

text \<open>
  C9: a 200 credential response whose body is JSON \<^verbatim>\<open>null\<close> makes the callback read
  \<^verbatim>\<open>body.key\<close> of \<^verbatim>\<open>null\<close>: the \<^verbatim>\<open>TypeError\<close> escapes the callback, no event is
  emitted (even with an \<^verbatim>\<open>'error'\<close> listener attached) and the upload is dead.
\<close>

theorem creds_null_body_crashes:
  assumes "crashed s = None" and "creds_pending s"
  shows "\<exists>t. step w s (CredsResp (Inr (200, Some JNull))) = Some t \<and>
           crashed t = Some (TypeError ''Cannot read properties of null (reading 'key')'') \<and>
           trace t = trace s @ [(Input (CredsResp (Inr (200, Some JNull))), [])]"
  using assms by (simp add: step_def handle_def on_creds_def creds_response_def sq_def)

definition ex_called :: ustate where
  "ex_called = (case run_from_call ex_world (Some example_opts) [AttachErrorListener] of
      Some t \<Rightarrow> t | None \<Rightarrow> init_state empty_opts)"

theorem creds_null_body_crashes_witness:
  "crashed ex_called = None \<and> creds_pending ex_called \<and> err_listener ex_called \<and>
   (\<exists>t. step ex_world ex_called (CredsResp (Inr (200, Some JNull))) = Some t \<and>
        crashed t = Some (TypeError ''Cannot read properties of null (reading 'key')''))"
proof -
  have h: "crashed ex_called = None" "creds_pending ex_called" "err_listener ex_called" by code_simp+
  from creds_null_body_crashes [OF h(1,2), of ex_world] h show ?thesis by blast
qed

definition ex_storage_fail_state :: ustate where
  "ex_storage_fail_state = (case run_from_call ex_world (Some example_opts) ex_storage_fail_inputs of
      Some t \<Rightarrow> t | None \<Rightarrow> init_state empty_opts)"

lemma ex_storage_fail_reachable: "reachable ex_world ex_storage_fail_state"
proof -
  have "run_from_call ex_world (Some example_opts) ex_storage_fail_inputs = Some ex_storage_fail_state"
    by code_simp
  then show ?thesis by (rule run_from_call_reachable)
qed

text \<open>
  C10: the module keeps no record that an upload has already failed. In every reachable
  state where the upload stream's listeners are registered, an upload-stream error
  followed by \<^verbatim>\<open>'uploaded'\<close> gives an \<^verbatim>\<open>'error'\<close> event and then the registration
  request, whose 201 answer is a \<^verbatim>\<open>'finished'\<close> event: two terminal signals.
\<close>

theorem upload_error_then_finalize:
  assumes "reachable w s" and "upload_listeners s" and "err_listener s" and "crashed s = None"
  shows "\<exists>t u. step w s (UploadError p) = Some t \<and> step w t Uploaded = Some u \<and>
     trace u = trace s @
       [(Input (UploadError p), [Emit (ErrorEv (Error (case p of None \<Rightarrow> msg_upload_failed | Some m \<Rightarrow> m) None))]),
        (Input Uploaded, [Post (post_request (uopts s) (ucreds s))])]"
proof -
  from reachable_inv [OF assms(1)] have nrm: "normalized w (uopts s)" and ci: "creds_inv s"
    by (simp_all add: ustate_inv_def)
  with assms(2) have ok: "creds_ok (ucreds s)" by (auto simp: creds_inv_def)
  let ?e = "Error (case p of None \<Rightarrow> msg_upload_failed | Some m \<Rightarrow> m) None"
  let ?t = "s\<lparr>trace := trace s @ [(Input (UploadError p), [Emit (ErrorEv ?e)])], outbox := []\<rparr>"
  have t: "step w s (UploadError p) = Some ?t"
    using assms(2-4) by (simp add: step_def handle_def on_upload_error_def emit_error_cases)
  have "step w ?t Uploaded = Some (?t\<lparr>post_pending := True,
      trace := trace ?t @ [(Input Uploaded, [Post (post_request (uopts s) (ucreds s))])]\<rparr>)"
    using assms(2,4) nrm ok by (simp add: step_def handle_def on_uploaded_def create_upload_ok)
  with t show ?thesis by auto
qed

theorem upload_error_then_finalize_witness:
  "\<exists>t u. step ex_world ex_storage_fail_state (UploadError None) = Some t \<and>
     step ex_world t Uploaded = Some u \<and> upload_listeners ex_storage_fail_state \<and>
     err_listener ex_storage_fail_state \<and> crashed ex_storage_fail_state = None"
proof -
  have h: "upload_listeners ex_storage_fail_state" "err_listener ex_storage_fail_state"
    "crashed ex_storage_fail_state = None" by code_simp+
  from upload_error_then_finalize [OF ex_storage_fail_reachable h, of None] h show ?thesis by blast
qed

text \<open>
  C15: a file that cannot be stat'ed is not an error event. After valid credentials
  arrive, \<^verbatim>\<open>putfile\<close> opens the read stream (whose \<^verbatim>\<open>'error'\<close> listener is registered)
  and then \<^verbatim>\<open>fs.statSync\<close> throws inside the credentials callback: the exception
  escapes, the upload is dead, and the only output of the reaction is the open.
\<close>

theorem missing_file_crashes:
  assumes "reachable w s" and "crashed s = None" and "creds_pending s"
    and "\<not> truthy (stream (uopts s))" and "file_opt (uopts s) = JStr p" and "fs_size w p = None"
    and "creds_response r = CbOk c"
  shows "\<exists>t. step w s (CredsResp r) = Some t \<and> crashed t = Some (External (StatError p)) \<and>
           trace t = trace s @ [(Input (CredsResp r), [OpenRead p])]"
proof -
  from reachable_inv [OF assms(1)] have "normalized w (uopts s)" and ob: "outbox s = []"
    by (simp_all add: ustate_inv_def)
  then have v: "valid_opts (uopts s)" and px: "js_or (proxy (uopts s)) (env_proxy w) = proxy (uopts s)"
    by (simp_all add: normalized_def)
  from creds_response_CbOk [OF assms(7)]
  have k: "truthy (prop_of c ''key'')" and b: "truthy (prop_of c ''bucket'')" by simp_all
  from v assms(4,5) have "p \<noteq> []" by (simp add: valid_opts_def)
  then show ?thesis
    using assms(2-7) v px k b ob
    by (simp add: step_def handle_def on_creds_def putfile_def putfile_source_def Let_def)
qed

definition ex_world_nofile :: world where
  "ex_world_nofile = ex_world\<lparr>fs_size := (\<lambda>p. None)\<rparr>"

definition ex_nofile_called :: ustate where
  "ex_nofile_called = (case run_from_call ex_world_nofile (Some example_opts) [AttachErrorListener] of
      Some t \<Rightarrow> t | None \<Rightarrow> init_state empty_opts)"

theorem missing_file_crashes_witness:
  "\<exists>t. step ex_world_nofile ex_nofile_called (CredsResp (Inr (200, Some ex_creds))) = Some t \<and>
       crashed t = Some (External (StatError ''data.mbtiles''))"
proof -
  have r: "run_from_call ex_world_nofile (Some example_opts) [AttachErrorListener] = Some ex_nofile_called"
    by code_simp
  have h: "crashed ex_nofile_called = None" "creds_pending ex_nofile_called"
    "\<not> truthy (stream (uopts ex_nofile_called))"
    "file_opt (uopts ex_nofile_called) = JStr ''data.mbtiles''"
    "fs_size ex_world_nofile ''data.mbtiles'' = None"
    "creds_response (Inr (200, Some ex_creds)) = CbOk ex_creds" by code_simp+
  from missing_file_crashes [OF run_from_call_reachable [OF r] h] show ?thesis by blast
qed

text \<open>
  C16: the stream check of line 88 never fires (its operand \<^verbatim>\<open>!opts.stream\<close> is a
  boolean), so a truthy \<^verbatim>\<open>stream\<close> option that is not a stream (a number, a string, a
  plain object) is taken as the source. After good credentials arrive, with an
  \<^verbatim>\<open>'error'\<close> listener attached: without a declared length, \<^verbatim>\<open>st.on('length', ...)\<close>
  (line 93) throws a \<^verbatim>\<open>TypeError\<close> inside the credentials callback; with one, the
  storage upload is started and \<^verbatim>\<open>st.pipe(prog)\<close> (line 132) throws it inside the
  uploader's callback. Either way the process dies and no event reaches the caller.
\<close>

theorem stream_not_emitter_crashes:
  assumes u: "upload w oo = Inr s" and c: "creds_ok c"
    and st: "truthy (stream (uopts s))" "\<not> is_emitter (stream (uopts s))"
  shows "(\<not> truthy (length_opt (uopts s)) \<longrightarrow>
            (\<exists>t. run w s [AttachErrorListener, CredsResp (Inr (200, Some c))] = Some t \<and>
                 crashed t = Some (TypeError msg_on_not_fn) \<and> events t = [])) \<and>
         (truthy (length_opt (uopts s)) \<longrightarrow>
            (\<exists>t. run w s [AttachErrorListener, CredsResp (Inr (200, Some c)), MpuReady None] = Some t \<and>
                 crashed t = Some (TypeError msg_pipe_not_fn) \<and> events t = []))"
proof -
  from upload_Inr [OF u] obtain o1 r where o1: "upload_opts (env_proxy w) oo = Inr o1"
    and s: "s = (init_state (opts_defaults (env_proxy w) oo))
                 \<lparr>uopts := o1, creds_pending := True, trace := [(Call, [Get r])]\<rparr>" by blast
  from upload_opts_Inr_normal [OF o1] have n: "normalized w o1" by (simp add: normalized_def)
  have ok: "creds_response (Inr (200, Some c)) = CbOk c" using c by (rule creds_response_good)
  from st s have st': "truthy (stream o1)" "\<not> is_emitter (stream o1)" by simp_all
  show ?thesis using n c ok st'
    by (simp add: s happy_path_simps throw_err_def)
qed

definition ex_number_stream :: "jsval \<Rightarrow> opts" where
  "ex_number_stream len = example_opts\<lparr>file_opt := JUndef, stream := JNum 7, length_opt := len\<rparr>"

definition ex_number_start :: "jsval \<Rightarrow> ustate" where
  "ex_number_start len = (case upload ex_world (Some (ex_number_stream len)) of
      Inr s \<Rightarrow> s | Inl _ \<Rightarrow> init_state empty_opts)"

theorem stream_not_emitter_crashes_witness:
  "(\<exists>t. run ex_world (ex_number_start JUndef) [AttachErrorListener, CredsResp (Inr (200, Some ex_creds))] = Some t \<and>
        crashed t = Some (TypeError msg_on_not_fn) \<and> events t = []) \<and>
   (\<exists>t. run ex_world (ex_number_start (JNum 1000))
          [AttachErrorListener, CredsResp (Inr (200, Some ex_creds)), MpuReady None] = Some t \<and>
        crashed t = Some (TypeError msg_pipe_not_fn) \<and> events t = [])"
proof -
  have u1: "upload ex_world (Some (ex_number_stream JUndef)) = Inr (ex_number_start JUndef)"
    and u2: "upload ex_world (Some (ex_number_stream (JNum 1000))) = Inr (ex_number_start (JNum 1000))"
    and c: "creds_ok ex_creds" by code_simp+
  have h1: "truthy (stream (uopts (ex_number_start JUndef)))"
    "\<not> is_emitter (stream (uopts (ex_number_start JUndef)))"
    "\<not> truthy (length_opt (uopts (ex_number_start JUndef)))" by code_simp+
  have h2: "truthy (stream (uopts (ex_number_start (JNum 1000))))"
    "\<not> is_emitter (stream (uopts (ex_number_start (JNum 1000))))"
    "truthy (length_opt (uopts (ex_number_start (JNum 1000))))" by code_simp+
  from stream_not_emitter_crashes [OF u1 c h1(1,2)] stream_not_emitter_crashes [OF u2 c h2(1,2)] h1(3) h2(3)
  show ?thesis by blast
qed

text \<open>
  C22: validation only asks the base URL to be truthy. A truthy non-string
  \<^verbatim>\<open>opts.mapbox\<close> (a number, an object) passes it, and then \<^verbatim>\<open>url.parse\<close> throws a
  \<^verbatim>\<open>TypeError\<close> while \<^verbatim>\<open>getcreds\<close> builds the request, synchronously inside
  \<^verbatim>\<open>upload()\<close>: the caller gets an exception and no progress stream.
\<close>

theorem upload_nonstring_base_throws:
  assumes "upload_opts (env_proxy w) oo = Inr o1" and "\<not> is_string (mapbox o1)"
  shows "\<exists>m. upload w oo = Inl (TypeError m)"
proof -
  from upload_opts_Inr_normal [OF assms(1)] upload_opts_fix
  have fx: "upload_opts (env_proxy w) (Some o1) = Inr o1" by blast
  from assms(2) have "creds_request o1 = Inl (TypeError ''The \"url\" argument must be of type string'')"
    by (cases "mapbox o1") (simp_all add: creds_request_def url_host_def)
  with assms(1) fx show ?thesis
    by (simp add: upload_def getcreds_def throw_err_def init_state_def)
qed

theorem upload_nonstring_base_throws_witness:
  "\<exists>m. upload ex_world (Some (example_opts\<lparr>mapbox := JNum 1\<rparr>)) = Inl (TypeError m)"
proof -
  have "upload_opts (env_proxy ex_world) (Some (example_opts\<lparr>mapbox := JNum 1\<rparr>)) =
      Inr (example_opts\<lparr>mapbox := JNum 1\<rparr>)" by code_simp
  moreover have "\<not> is_string (mapbox (example_opts\<lparr>mapbox := JNum 1\<rparr>))" by simp
  ultimately show ?thesis by (rule upload_nonstring_base_throws)
qed

text \<open>
  In every reachable state the trace starts with the call's credentials request, and no
  later reaction is the call; so the base URL passed \<^verbatim>\<open>url.parse\<close> and is a string.
\<close>

definition call_head :: "ustate \<Rightarrow> bool" where
  "call_head s \<longleftrightarrow> (\<exists>g rest. creds_request (uopts s) = Inr g \<and> trace s = (Call, [Get g]) # rest \<and>
                      (\<forall>x \<in> set rest. fst x \<noteq> Call))"

lemma reachable_call_head: "reachable w s \<Longrightarrow> call_head s"
proof (induction rule: reachable.induct)
  case (call oo s)
  then show ?case by (auto simp: call_head_def init_state_def dest!: upload_Inr)
next
  case (step s i t)
  from step_Some [OF step.hyps(2)] obtain t' where
    t: "t = t'\<lparr>outbox := [], trace := trace s @ [(Input i, outbox t')]\<rparr>" by blast
  from step_uopts [OF step.hyps(1,2)] have "uopts t = uopts s" .
  with step.IH show ?case by (auto simp: call_head_def t)
qed

lemma call_head_base: "call_head s \<Longrightarrow> \<exists>base. mapbox (uopts s) = JStr base"
  by (auto simp: call_head_def creds_request_def url_host_def split: jsval.splits sum.splits)

text \<open>
  C24: the requests have the shape the specification gives them. In every reachable state
  the base URL, the account and the map id are strings. The credentials request goes to
  \<^verbatim>\<open>{base}/uploads/v1/{account}/credentials?access_token={token}\<close>, the registration to
  \<^verbatim>\<open>{base}/uploads/v1/{account}?access_token={token}\<close>, with body
  \<^verbatim>\<open>{id: mapId, url: <object URL of bucket and key>, data: mapId}\<close>. The token is
  rendered by \<^verbatim>\<open>String\<close>, since validation only asks it to be truthy.
\<close>

theorem requests_as_specified:
  assumes r: "reachable w s" and x: "(t, outs) \<in> set (trace s)"
  shows "\<exists>base a m. mapbox (uopts s) = JStr base \<and> account (uopts s) = JStr a \<and> mapid (uopts s) = JStr m \<and>
           (\<forall>g. Get g \<in> set outs \<longrightarrow>
              greq_uri g = base @ ''/uploads/v1/'' @ a @ ''/credentials?access_token='' @
                           js_to_string (accesstoken (uopts s))) \<and>
           (\<forall>p. Post p \<in> set outs \<longrightarrow>
              preq_uri p = base @ ''/uploads/v1/'' @ a @ ''?access_token='' @ js_to_string (accesstoken (uopts s)) \<and>
              preq_json p = JObj [(''id'', JStr m),
                 (''url'', JStr (object_url (js_to_string (prop_of (ucreds s) ''bucket''))
                                            (js_to_string (prop_of (ucreds s) ''key'')))),
                 (''data'', JStr m)])"
proof -
  from reachable_call_head [OF r] have ch: "call_head s" .
  from call_head_base [OF ch] obtain base where b: "mapbox (uopts s) = JStr base" by blast
  from reachable_inv [OF r] have "valid_opts (uopts s)" by (simp add: ustate_inv_def normalized_def)
  then obtain a m where a: "account (uopts s) = JStr a" and m: "mapid (uopts s) = JStr m"
    by (auto simp: valid_opts_def split: jsval.splits)
  from reachable_reaction [OF r x] have rok: "reaction_ok (uopts s) (ucreds s) (creds_pending s) (t, outs)" .
  have get: "greq_uri g = base @ ''/uploads/v1/'' @ a @ ''/credentials?access_token='' @
                           js_to_string (accesstoken (uopts s))" if "Get g \<in> set outs" for g
  proof -
    from that rok have "t = Call" by (auto simp: reaction_ok_def list_all_iff)
    with ch x that have "creds_request (uopts s) = Inr g"
      by (force simp: call_head_def)
    with b a show ?thesis
      by (auto simp: creds_request_def url_host_def creds_uri_def fmt_s_def split: sum.splits)
  qed
  have post: "p = post_request (uopts s) (ucreds s)" if "Post p \<in> set outs" for p
    using that rok by (auto simp: reaction_ok_def list_all_iff)
  have post2: "preq_uri p = base @ ''/uploads/v1/'' @ a @ ''?access_token='' @ js_to_string (accesstoken (uopts s)) \<and>
      preq_json p = JObj [(''id'', JStr m),
         (''url'', JStr (object_url (js_to_string (prop_of (ucreds s) ''bucket''))
                                    (js_to_string (prop_of (ucreds s) ''key'')))),
         (''data'', JStr m)]" if "Post p \<in> set outs" for p
    using post [OF that] b a m by (simp add: post_request_def upload_uri_def s3_url_def fmt_s_def)
  from b a m get post2 show ?thesis by blast
qed
theorem requests_as_specified_witness:
  "\<exists>base a m. mapbox (uopts ex_state) = JStr base \<and> account (uopts ex_state) = JStr a \<and>
     mapid (uopts ex_state) = JStr m"
proof -
  have "(Input Uploaded, [Post ex_post]) \<in> set (trace ex_state)" by code_simp
  from requests_as_specified [OF ex_reachable this] show ?thesis by blast
qed


end
